theory Spec2Isabelle
  imports Complex_Main "HOL-Library.AList" "HOL-Library.Monad_Syntax"
begin

section \<open>Values, strings and exceptions\<close>

text \<open>
  A Python \<open>str\<close> is a sequence of Unicode code points. The messages of \<open>main.py\<close>
  are Chinese text, so a string is modelled as the list of its code points. Column
  labels are plain ASCII literals of the source and are kept as HOL strings;
  \<open>codepoints\<close> turns one into a Python string.
\<close>

type_synonym pystr = "nat list"

definition codepoints :: "string \<Rightarrow> pystr" where
  "codepoints s = map of_char s"

text \<open>
  A cell of a numeric column is an IEEE double. The signal rules only compare cells,
  and comparison of doubles is exact, so a cell is not-a-number, an infinity, or a
  finite value read as the real number it denotes.
\<close>

datatype float64 = NaN | NegInf | Finite real | PosInf

text \<open>\<open>a < b\<close> and \<open>a <= b\<close> on doubles: every comparison with not-a-number is false.\<close>

fun flt :: "float64 \<Rightarrow> float64 \<Rightarrow> bool" where
  "flt (Finite x) (Finite y) = (x < y)"
| "flt (Finite x) PosInf = True"
| "flt NegInf (Finite y) = True"
| "flt NegInf PosInf = True"
| "flt _ _ = False"

fun fle :: "float64 \<Rightarrow> float64 \<Rightarrow> bool" where
  "fle (Finite x) (Finite y) = (x \<le> y)"
| "fle (Finite x) PosInf = True"
| "fle NegInf (Finite y) = True"
| "fle NegInf PosInf = True"
| "fle NegInf NegInf = True"
| "fle PosInf PosInf = True"
| "fle _ _ = False"

definition fgt :: "float64 \<Rightarrow> float64 \<Rightarrow> bool" where
  "fgt a b = flt b a"

definition fge :: "float64 \<Rightarrow> float64 \<Rightarrow> bool" where
  "fge a b = fle b a"

text \<open>
  The exceptions the modelled code can meet: a missing column (\<open>df['X']\<close>), a
  position outside a column (\<open>.iloc[i]\<close>), and a column assignment whose length
  differs from the index.
\<close>

datatype exn = KeyError string | IndexError | ValueError

text \<open>
  \<open>str(e)\<close>. For a \<open>KeyError\<close> it is the \<open>repr\<close> of the key, which for the ASCII
  labels of the source is the label between single quotes (code point 39); for the
  \<open>IndexError\<close> of \<open>.iloc\<close> it is pandas' text
  "single positional indexer is out-of-bounds".
\<close>

fun str_exn :: "exn \<Rightarrow> pystr" where
  "str_exn (KeyError k) = [39] @ codepoints k @ [39]"
| "str_exn IndexError = codepoints ''single positional indexer is out-of-bounds''"
| "str_exn ValueError = codepoints ''Length of values does not match length of index''"

section \<open>Data frames\<close>

text \<open>
  A \<open>DataFrame\<close> is its row index and its columns in insertion order. pandas keeps
  every column as long as the index; \<open>wf_dataframe\<close> states that invariant.
\<close>

type_synonym label = int

record dataframe =
  index :: "label list"
  columns :: "(string \<times> float64 list) list"

definition len :: "dataframe \<Rightarrow> nat" where
  "len df = length (index df)"

definition wf_dataframe :: "dataframe \<Rightarrow> bool" where
  "wf_dataframe df = list_all (\<lambda>(c, col). length col = length (index df)) (columns df)"

text \<open>\<open>df[c]\<close>: the column, or \<open>KeyError\<close>.\<close>

definition getitem :: "dataframe \<Rightarrow> string \<Rightarrow> exn + float64 list" where
  "getitem df c = (case map_of (columns df) c of None \<Rightarrow> Inl (KeyError c) | Some col \<Rightarrow> Inr col)"

text \<open>\<open>col.iloc[i]\<close>: a negative position counts from the end.\<close>

definition iloc :: "float64 list \<Rightarrow> int \<Rightarrow> exn + float64" where
  "iloc col i =
     (let n = int (length col); j = (if i < 0 then n + i else i)
      in if 0 \<le> j \<and> j < n then Inr (col ! nat j) else Inl IndexError)"

text \<open>\<open>df[c].iloc[i]\<close>.\<close>

definition item :: "dataframe \<Rightarrow> string \<Rightarrow> int \<Rightarrow> exn + float64" where
  "item df c i = (case getitem df c of Inl e \<Rightarrow> Inl e | Inr col \<Rightarrow> iloc col i)"

section \<open>Python expressions that may raise\<close>

text \<open>
  An expression evaluates to a value or raises. A comparison evaluates its left
  operand, then its right operand, then compares. \<open>x and y\<close> evaluates \<open>y\<close> only
  when \<open>x\<close> is true, so an exception of \<open>y\<close> is not raised when \<open>x\<close> is false; a
  chained comparison \<open>a > 0 >= b\<close> is \<open>a > 0 and 0 >= b\<close>.
\<close>

definition compare :: "(float64 \<Rightarrow> float64 \<Rightarrow> bool) \<Rightarrow> exn + float64 \<Rightarrow> exn + float64 \<Rightarrow> exn + bool" where
  "compare rel x y =
     (case x of Inl e \<Rightarrow> Inl e
      | Inr a \<Rightarrow> (case y of Inl e \<Rightarrow> Inl e | Inr b \<Rightarrow> Inr (rel a b)))"

definition py_and :: "exn + bool \<Rightarrow> exn + bool \<Rightarrow> exn + bool" where
  "py_and x y = (case x of Inl e \<Rightarrow> Inl e | Inr a \<Rightarrow> (if a then y else Inr False))"

definition const :: "real \<Rightarrow> exn + float64" where
  "const r = Inr (Finite r)"

text \<open>
  Every rule of the signal generator is one statement of the shape
  \<^verbatim>\<open>if c1: signals.append(m1)  elif c2: signals.append(m2)\<close>:
  \<open>c2\<close> is evaluated only when \<open>c1\<close> is false, and an exception leaves the list as
  it was.
\<close>

definition if_elif_append :: "exn + bool \<Rightarrow> pystr \<Rightarrow> exn + bool \<Rightarrow> pystr \<Rightarrow> pystr list \<Rightarrow> exn + pystr list" where
  "if_elif_append c1 m1 c2 m2 signals =
     (case c1 of Inl e \<Rightarrow> Inl e
      | Inr a \<Rightarrow>
          if a then Inr (signals @ [m1])
          else (case c2 of Inl e \<Rightarrow> Inl e
                | Inr b \<Rightarrow> if b then Inr (signals @ [m2]) else Inr signals))"

section \<open>The messages of \<open>generate_trading_signals\<close>\<close>

text \<open>
  The string literals of lines 23 to 72 of \<open>main.py\<close>, as code points. In order:
  insufficient data (line 23); MACD golden cross, MACD dead cross (28, 30); KDJ
  oversold, KDJ overbought (34, 36); RSI oversold, RSI overbought (40, 42); price
  above the upper Bollinger band, price below the lower band (46, 48); DMI golden
  cross, DMI dead cross (52, 54); VR above 160, VR below 40 (58, 60); ROC crossing
  above its average, ROC crossing below it (64, 66); the prefix of the diagnostic
  message (70); no clear signal (72).
\<close>

definition msg_insufficient_data :: pystr where
  "msg_insufficient_data =
     [25968, 25454, 19981, 36275, 65292, 26080, 27861, 36827, 34892, 25216, 26415, 20998, 26512]"

definition msg_macd_golden :: pystr where
  "msg_macd_golden =
     [77, 65, 67, 68, 37329, 21449, 24418, 25104, 65292, 21487, 33021, 19978, 28072]"

definition msg_macd_dead :: pystr where
  "msg_macd_dead =
     [77, 65, 67, 68, 27515, 21449, 24418, 25104, 65292, 21487, 33021, 19979, 36300]"

definition msg_kdj_oversold :: pystr where
  "msg_kdj_oversold = [75, 68, 74, 36229, 21334, 65292, 21487, 33021, 21453, 24377]"

definition msg_kdj_overbought :: pystr where
  "msg_kdj_overbought = [75, 68, 74, 36229, 20080, 65292, 27880, 24847, 22238, 35843]"

definition msg_rsi_oversold :: pystr where
  "msg_rsi_oversold = [82, 83, 73, 36229, 21334, 65292, 21487, 33021, 21453, 24377]"

definition msg_rsi_overbought :: pystr where
  "msg_rsi_overbought = [82, 83, 73, 36229, 20080, 65292, 27880, 24847, 22238, 35843]"

definition msg_boll_up :: pystr where
  "msg_boll_up =
     [32929, 20215, 31361, 30772, 24067, 26519, 19978, 36712, 65292, 36229, 20080, 29366, 24577]"

definition msg_boll_low :: pystr where
  "msg_boll_low =
     [32929, 20215, 36300, 30772, 24067, 26519, 19979, 36712, 65292, 36229, 21334, 29366, 24577]"

definition msg_dmi_golden :: pystr where
  "msg_dmi_golden =
     [68, 77, 73, 37329, 21449, 65292, 19978, 21319, 36235, 21183, 24418, 25104]"

definition msg_dmi_dead :: pystr where
  "msg_dmi_dead =
     [68, 77, 73, 27515, 21449, 65292, 19979, 38477, 36235, 21183, 24418, 25104]"

definition msg_vr_high :: pystr where
  "msg_vr_high =
     [86, 82, 22823, 20110, 49, 54, 48, 65292, 24066, 22330, 27963, 36291, 24230, 39640]"

definition msg_vr_low :: pystr where
  "msg_vr_low =
     [86, 82, 23567, 20110, 52, 48, 65292, 24066, 22330, 27963, 36291, 24230, 20302]"

definition msg_roc_up :: pystr where
  "msg_roc_up =
     [82, 79, 67, 19978, 31359, 22343, 32447, 65292, 19978, 21319, 21160, 33021, 22686, 24378]"

definition msg_roc_down :: pystr where
  "msg_roc_down =
     [82, 79, 67, 19979, 31359, 22343, 32447, 65292, 19978, 21319, 21160, 33021, 20943, 24369]"

definition msg_error_prefix :: pystr where
  "msg_error_prefix = [25216, 26415, 20998, 26512, 35745, 31639, 20986, 38169, 58, 32]"

definition msg_no_signal :: pystr where
  "msg_no_signal = [24403, 21069, 26080, 26126, 26174, 20132, 26131, 20449, 21495]"

text \<open>The message of the handler at line 70: the prefix followed by \<open>str(e)\<close>.\<close>

definition diagnostic :: "exn \<Rightarrow> pystr" where
  "diagnostic e = msg_error_prefix @ str_exn e"

section \<open>The signal generator\<close>

text \<open>
  The seven statements of the \<open>try\<close> block, lines 26 to 66, in source order. Each
  takes the list \<open>signals\<close> and returns it, possibly longer by one message, or
  raises.
\<close>

definition macd_rule :: "dataframe \<Rightarrow> pystr list \<Rightarrow> exn + pystr list" where
  "macd_rule df =
     if_elif_append
       (py_and (compare fgt (item df ''MACD'' (-1)) (const 0))
               (compare fge (const 0) (item df ''MACD'' (-2))))
       msg_macd_golden
       (py_and (compare flt (item df ''MACD'' (-1)) (const 0))
               (compare fle (const 0) (item df ''MACD'' (-2))))
       msg_macd_dead"

definition kdj_rule :: "dataframe \<Rightarrow> pystr list \<Rightarrow> exn + pystr list" where
  "kdj_rule df =
     if_elif_append
       (py_and (compare flt (item df ''K'' (-1)) (const 20))
               (compare flt (item df ''D'' (-1)) (const 20)))
       msg_kdj_oversold
       (py_and (compare fgt (item df ''K'' (-1)) (const 80))
               (compare fgt (item df ''D'' (-1)) (const 80)))
       msg_kdj_overbought"

definition rsi_rule :: "dataframe \<Rightarrow> pystr list \<Rightarrow> exn + pystr list" where
  "rsi_rule df =
     if_elif_append
       (compare flt (item df ''RSI'' (-1)) (const 20))
       msg_rsi_oversold
       (compare fgt (item df ''RSI'' (-1)) (const 80))
       msg_rsi_overbought"

definition boll_rule :: "dataframe \<Rightarrow> pystr list \<Rightarrow> exn + pystr list" where
  "boll_rule df =
     if_elif_append
       (compare fgt (item df ''close'' (-1)) (item df ''BOLL_UP'' (-1)))
       msg_boll_up
       (compare flt (item df ''close'' (-1)) (item df ''BOLL_LOW'' (-1)))
       msg_boll_low"

definition dmi_rule :: "dataframe \<Rightarrow> pystr list \<Rightarrow> exn + pystr list" where
  "dmi_rule df =
     if_elif_append
       (py_and (compare fgt (item df ''PDI'' (-1)) (item df ''MDI'' (-1)))
               (compare fle (item df ''PDI'' (-2)) (item df ''MDI'' (-2))))
       msg_dmi_golden
       (py_and (compare flt (item df ''PDI'' (-1)) (item df ''MDI'' (-1)))
               (compare fge (item df ''PDI'' (-2)) (item df ''MDI'' (-2))))
       msg_dmi_dead"

definition vr_rule :: "dataframe \<Rightarrow> pystr list \<Rightarrow> exn + pystr list" where
  "vr_rule df =
     if_elif_append
       (compare fgt (item df ''VR'' (-1)) (const 160))
       msg_vr_high
       (compare flt (item df ''VR'' (-1)) (const 40))
       msg_vr_low"

definition roc_rule :: "dataframe \<Rightarrow> pystr list \<Rightarrow> exn + pystr list" where
  "roc_rule df =
     if_elif_append
       (py_and (compare fgt (item df ''ROC'' (-1)) (item df ''MAROC'' (-1)))
               (compare fle (item df ''ROC'' (-2)) (item df ''MAROC'' (-2))))
       msg_roc_up
       (py_and (compare flt (item df ''ROC'' (-1)) (item df ''MAROC'' (-1)))
               (compare fge (item df ''ROC'' (-2)) (item df ''MAROC'' (-2))))
       msg_roc_down"

definition signal_rules :: "dataframe \<Rightarrow> (pystr list \<Rightarrow> exn + pystr list) list" where
  "signal_rules df =
     [macd_rule df, kdj_rule df, rsi_rule df, boll_rule df, dmi_rule df, vr_rule df, roc_rule df]"

text \<open>
  The body of the \<open>try\<close>: the statements run in order on the list; the first
  exception stops the block, and the list keeps what was appended before it. The
  result is the list and the exception, if one was raised.
\<close>

fun run_rules :: "(pystr list \<Rightarrow> exn + pystr list) list \<Rightarrow> pystr list \<Rightarrow> pystr list \<times> exn option" where
  "run_rules [] signals = (signals, None)"
| "run_rules (r # rs) signals =
     (case r signals of Inl e \<Rightarrow> (signals, Some e) | Inr signals' \<Rightarrow> run_rules rs signals')"

text \<open>
  \<open>generate_trading_signals\<close>, lines 17 to 72: the guard on the row count, the
  \<open>try\<close> block with its handler (which appends the diagnostic message; the
  \<open>print\<close> is not modelled), and the final fallback for an empty list.
\<close>

definition generate_trading_signals :: "dataframe \<Rightarrow> pystr list" where
  "generate_trading_signals df =
     (if len df < 2 then [msg_insufficient_data]
      else
        let signals =
              (case run_rules (signal_rules df) [] of
                 (signals, None) \<Rightarrow> signals
               | (signals, Some e) \<Rightarrow> signals @ [diagnostic e])
        in if signals \<noteq> [] then signals else [msg_no_signal])"

section \<open>Notions used to state the properties\<close>

text \<open>
  The number of the rule a message belongs to, following the numbering of the rules in
  section 4.4 of the specification (1 MACD, 2 KDJ, 3 RSI, 4 Bollinger, 5 DMI, 6 VR,
  7 ROC); any other string, such as the diagnostic or the fallback message, has
  number 8.
\<close>

definition rule_index :: "pystr \<Rightarrow> nat" where
  "rule_index m =
     (if m = msg_macd_golden \<or> m = msg_macd_dead then 1
      else if m = msg_kdj_oversold \<or> m = msg_kdj_overbought then 2
      else if m = msg_rsi_oversold \<or> m = msg_rsi_overbought then 3
      else if m = msg_boll_up \<or> m = msg_boll_low then 4
      else if m = msg_dmi_golden \<or> m = msg_dmi_dead then 5
      else if m = msg_vr_high \<or> m = msg_vr_low then 6
      else if m = msg_roc_up \<or> m = msg_roc_down then 7
      else 8)"

text \<open>
  A list whose messages carry strictly increasing rule numbers, none above \<open>k\<close>: the
  state of \<open>signals\<close> after the first \<open>k\<close> statements of the block.
\<close>

definition ordered_upto :: "nat \<Rightarrow> pystr list \<Rightarrow> bool" where
  "ordered_upto k signals =
     (sorted_wrt (<) (map rule_index signals) \<and> list_all (\<lambda>m. rule_index m \<le> k) signals)"

text \<open>
  The columns \<open>generate_trading_signals\<close> reads. A table is augmented, as far as the
  signal generator is concerned, when it is a well-formed frame that has them all.
\<close>

definition signal_columns :: "string list" where
  "signal_columns =
     [''MACD'', ''K'', ''D'', ''RSI'', ''close'', ''BOLL_UP'', ''BOLL_LOW'', ''PDI'', ''MDI'',
      ''VR'', ''ROC'', ''MAROC'']"

definition augmented :: "dataframe \<Rightarrow> bool" where
  "augmented df =
     (wf_dataframe df \<and> list_all (\<lambda>c. map_of (columns df) c \<noteq> None) signal_columns)"

text \<open>A string that starts with the prefix of the handler's message.\<close>

definition is_diagnostic :: "pystr \<Rightarrow> bool" where
  "is_diagnostic m = (take (length msg_error_prefix) m = msg_error_prefix)"

text \<open>
  Following the specification's wording of rule 1: a sign change of the histogram
  "negative to positive", respectively "positive to negative", between the previous
  and the latest row.
\<close>

definition negative_to_positive :: "float64 \<Rightarrow> float64 \<Rightarrow> bool" where
  "negative_to_positive previous latest = (flt previous (Finite 0) \<and> fgt latest (Finite 0))"

definition positive_to_negative :: "float64 \<Rightarrow> float64 \<Rightarrow> bool" where
  "positive_to_negative previous latest = (fgt previous (Finite 0) \<and> flt latest (Finite 0))"

text \<open>
  The cell of a column in the last row and in the row before it, for tables in which it
  can be read (not-a-number stands in where it cannot; the properties use these only on
  augmented tables with at least two rows).
\<close>

definition latest_cell :: "dataframe \<Rightarrow> string \<Rightarrow> float64" where
  "latest_cell df c = (case item df c (-1) of Inl e \<Rightarrow> NaN | Inr v \<Rightarrow> v)"

definition previous_cell :: "dataframe \<Rightarrow> string \<Rightarrow> float64" where
  "previous_cell df c = (case item df c (-2) of Inl e \<Rightarrow> NaN | Inr v \<Rightarrow> v)"

section \<open>Example tables\<close>

text \<open>
  Two-row tables with the columns the signal generator reads. On \<open>quiet_table\<close> no
  rule fires; the others change or drop some columns.
\<close>

definition quiet_columns :: "(string \<times> float64 list) list" where
  "quiet_columns =
     [(''close'', [Finite 10, Finite 10]),
      (''MACD'', [Finite 0, Finite 0]),
      (''K'', [Finite 50, Finite 50]),
      (''D'', [Finite 50, Finite 50]),
      (''BOLL_UP'', [Finite 11, Finite 11]),
      (''BOLL_LOW'', [Finite 9, Finite 9]),
      (''RSI'', [Finite 50, Finite 50]),
      (''PDI'', [Finite 20, Finite 20]),
      (''MDI'', [Finite 20, Finite 20]),
      (''VR'', [Finite 100, Finite 100]),
      (''ROC'', [Finite 0, Finite 0]),
      (''MAROC'', [Finite 0, Finite 0])]"

definition quiet_table :: dataframe where
  "quiet_table = \<lparr>index = [0, 1], columns = quiet_columns\<rparr>"

definition oversold_table :: dataframe where
  "oversold_table = \<lparr>index = [0, 1], columns =
      AList.update ''MACD'' [Finite (-0.1), Finite 0.2]
        (AList.update ''K'' [Finite 50, Finite 15]
          (AList.update ''D'' [Finite 50, Finite 15]
            (AList.update ''RSI'' [Finite 50, Finite 10] quiet_columns)))\<rparr>"

definition macd_zero_table :: dataframe where
  "macd_zero_table = \<lparr>index = [0, 1], columns =
      AList.update ''MACD'' [Finite 0, Finite 0.2] quiet_columns\<rparr>"

definition rsi20_table :: dataframe where
  "rsi20_table = \<lparr>index = [0, 1], columns =
      AList.update ''RSI'' [Finite 50, Finite 20] quiet_columns\<rparr>"

definition rsi_low_table :: dataframe where
  "rsi_low_table = \<lparr>index = [0, 1], columns =
      AList.update ''RSI'' [Finite 50, Finite 19] quiet_columns\<rparr>"

definition no_macd_table :: dataframe where
  "no_macd_table = \<lparr>index = [0, 1], columns =
      [(''close'', [Finite 10, Finite 10]),
       (''K'', [Finite 50, Finite 15]),
       (''D'', [Finite 50, Finite 15]),
       (''RSI'', [Finite 50, Finite 10])]\<rparr>"

definition no_rsi_table :: dataframe where
  "no_rsi_table = \<lparr>index = [0, 1], columns =
      [(''close'', [Finite 10, Finite 10]),
       (''MACD'', [Finite (-0.1), Finite 0.2]),
       (''K'', [Finite 50, Finite 15]),
       (''D'', [Finite 50, Finite 15])]\<rparr>"

text \<open>A table on which all seven rules fire.\<close>

definition busy_table :: dataframe where
  "busy_table = \<lparr>index = [0, 1], columns =
      [(''close'', [Finite 10, Finite 12]),
       (''MACD'', [Finite (-0.1), Finite 0.2]),
       (''K'', [Finite 50, Finite 15]),
       (''D'', [Finite 50, Finite 15]),
       (''BOLL_UP'', [Finite 11, Finite 11]),
       (''BOLL_LOW'', [Finite 9, Finite 9]),
       (''RSI'', [Finite 50, Finite 10]),
       (''PDI'', [Finite 20, Finite 25]),
       (''MDI'', [Finite 20, Finite 20]),
       (''VR'', [Finite 100, Finite 170]),
       (''ROC'', [Finite 0, Finite 1]),
       (''MAROC'', [Finite 0, Finite 0])]\<rparr>"

definition one_row_table :: dataframe where
  "one_row_table = \<lparr>index = [0], columns = map (\<lambda>(c, col). (c, [last col])) quiet_columns\<rparr>"

definition no_row_table :: dataframe where
  "no_row_table = \<lparr>index = [], columns = map (\<lambda>(c, col). (c, [])) quiet_columns\<rparr>"

section \<open>The indicator library\<close>

text \<open>
  \<open>main.py\<close> imports the module \<open>MyTT\<close> as \<open>mt\<close>; the module is not among the
  sources, so its functions are parameters of the model. Each takes the arrays and
  periods the source passes (defaults of the library are inside it) and returns the
  arrays the source unpacks, or raises: \<open>None\<close> stands for any exception, since the
  handler of \<open>calculate_indicators\<close> does not look at it. Nothing is assumed about
  the length or the values of a returned array.
\<close>

type_synonym array = "float64 list"

record mytt =
  mt_MACD :: "array \<Rightarrow> (array \<times> array \<times> array) option"
  mt_KDJ :: "array \<Rightarrow> array \<Rightarrow> array \<Rightarrow> (array \<times> array \<times> array) option"
  mt_BOLL :: "array \<Rightarrow> (array \<times> array \<times> array) option"
  mt_RSI :: "array \<Rightarrow> nat \<Rightarrow> array option"
  mt_PSY :: "array \<Rightarrow> (array \<times> array) option"
  mt_WR :: "array \<Rightarrow> array \<Rightarrow> array \<Rightarrow> (array \<times> array) option"
  mt_BIAS :: "array \<Rightarrow> (array \<times> array \<times> array) option"
  mt_CCI :: "array \<Rightarrow> array \<Rightarrow> array \<Rightarrow> array option"
  mt_MA :: "array \<Rightarrow> nat \<Rightarrow> array option"
  mt_ATR :: "array \<Rightarrow> array \<Rightarrow> array \<Rightarrow> array option"
  mt_EMV :: "array \<Rightarrow> array \<Rightarrow> array \<Rightarrow> (array \<times> array) option"
  mt_DPO :: "array \<Rightarrow> (array \<times> array) option"
  mt_TRIX :: "array \<Rightarrow> (array \<times> array) option"
  mt_DMI :: "array \<Rightarrow> array \<Rightarrow> array \<Rightarrow> (array \<times> array \<times> array \<times> array) option"
  mt_VR :: "array \<Rightarrow> array \<Rightarrow> array option"
  mt_BRAR :: "array \<Rightarrow> array \<Rightarrow> array \<Rightarrow> array \<Rightarrow> (array \<times> array) option"
  mt_ROC :: "array \<Rightarrow> (array \<times> array) option"
  mt_MTM :: "array \<Rightarrow> (array \<times> array) option"
  mt_DMA :: "array \<Rightarrow> (array \<times> array) option"

section \<open>The indicator assembler\<close>

text \<open>
  \<open>np.nan_to_num(x, nan=v)\<close>: not-a-number becomes \<open>v\<close>, and with the default
  arguments an infinity becomes the largest, respectively the smallest, finite double.
\<close>

definition float64_max :: real where
  "float64_max = (2 ^ 53 - 1) * 2 ^ 971"

fun nan_to_num1 :: "real \<Rightarrow> float64 \<Rightarrow> float64" where
  "nan_to_num1 v NaN = Finite v"
| "nan_to_num1 v PosInf = Finite float64_max"
| "nan_to_num1 v NegInf = Finite (- float64_max)"
| "nan_to_num1 v (Finite x) = Finite x"

definition nan_to_num :: "real \<Rightarrow> array \<Rightarrow> array" where
  "nan_to_num v xs = map (nan_to_num1 v) xs"

text \<open>
  \<open>df[c] = v\<close> for an array \<open>v\<close>. pandas raises \<open>ValueError\<close> when the length of
  \<open>v\<close> differs from the length of the index; an existing column is replaced in its
  place, a new one is added last. A frame without rows is the exception: assigning a
  non-empty array gives it the positions of the array as index, and the columns it had
  are filled with not-a-number.
\<close>

definition setitem :: "dataframe \<Rightarrow> string \<Rightarrow> array \<Rightarrow> exn + dataframe" where
  "setitem df c v =
     (if index df = [] \<and> v \<noteq> [] then
        Inr \<lparr>index = map int [0..<length v],
             columns = AList.update c v
               (map (\<lambda>(k, col). (k, replicate (length v) NaN)) (columns df))\<rparr>
      else if length v = length (index df) then
        Inr (df\<lparr>columns := AList.update c v (columns df)\<rparr>)
      else Inl ValueError)"

text \<open>A sequence of assignments; the first that raises ends it.\<close>

fun setitems :: "dataframe \<Rightarrow> (string \<times> array) list \<Rightarrow> exn + dataframe" where
  "setitems df [] = Inr df"
| "setitems df ((c, v) # rest) =
     (case setitem df c v of Inl e \<Rightarrow> Inl e | Inr df' \<Rightarrow> setitems df' rest)"

text \<open>Inside a \<open>try\<close> whose handler ignores the exception, raising is \<open>None\<close>.\<close>

definition discard_exn :: "exn + 'a \<Rightarrow> 'a option" where
  "discard_exn r = (case r of Inl e \<Rightarrow> None | Inr x \<Rightarrow> Some x)"

text \<open>
  Lines 178 to 213 of \<open>calculate_indicators\<close>: the five input arrays are read, every
  indicator is computed in source order, and the result is the list of the
  assignments of lines 215 to 256, label and array, in source order.
\<close>

definition compute_indicators :: "mytt \<Rightarrow> dataframe \<Rightarrow> (string \<times> array) list option" where
  "compute_indicators mt df = do {
     close \<leftarrow> discard_exn (getitem df ''close'');
     open_price \<leftarrow> discard_exn (getitem df ''open'');
     high \<leftarrow> discard_exn (getitem df ''high'');
     low \<leftarrow> discard_exn (getitem df ''low'');
     volume \<leftarrow> discard_exn (getitem df ''volume'');
     (dif, dea, macd) \<leftarrow> mt_MACD mt close;
     (k, d, j) \<leftarrow> mt_KDJ mt close high low;
     (upper, mid, lower) \<leftarrow> mt_BOLL mt close;
     rsi_raw \<leftarrow> mt_RSI mt close 14;
     let rsi = nan_to_num 50 rsi_raw;
     (psy, psyma) \<leftarrow> mt_PSY mt close;
     (wr, wr1) \<leftarrow> mt_WR mt close high low;
     (bias1, bias2, bias3) \<leftarrow> mt_BIAS mt close;
     cci \<leftarrow> mt_CCI mt close high low;
     ma5 \<leftarrow> mt_MA mt close 5;
     ma10 \<leftarrow> mt_MA mt close 10;
     ma20 \<leftarrow> mt_MA mt close 20;
     ma60 \<leftarrow> mt_MA mt close 60;
     atr \<leftarrow> mt_ATR mt close high low;
     (emv, maemv) \<leftarrow> mt_EMV mt high low volume;
     (dpo, madpo) \<leftarrow> mt_DPO mt close;
     (trix, trma) \<leftarrow> mt_TRIX mt close;
     (pdi, mdi, adx, adxr) \<leftarrow> mt_DMI mt close high low;
     vr \<leftarrow> mt_VR mt close volume;
     (ar, br) \<leftarrow> mt_BRAR mt open_price close high low;
     (roc, maroc) \<leftarrow> mt_ROC mt close;
     (mtm, mtmma) \<leftarrow> mt_MTM mt close;
     (dif_dma, difma_dma) \<leftarrow> mt_DMA mt close;
     Some [(''MACD'', macd), (''DIF'', dif), (''DEA'', dea),
           (''K'', k), (''D'', d), (''J'', j),
           (''BOLL_UP'', upper), (''BOLL_MID'', mid), (''BOLL_LOW'', lower),
           (''RSI'', rsi), (''PSY'', psy), (''PSYMA'', psyma),
           (''WR'', wr), (''WR1'', wr1),
           (''BIAS1'', bias1), (''BIAS2'', bias2), (''BIAS3'', bias3),
           (''CCI'', cci),
           (''MA5'', ma5), (''MA10'', ma10), (''MA20'', ma20), (''MA60'', ma60),
           (''ATR'', atr), (''EMV'', emv), (''MAEMV'', maemv),
           (''DPO'', dpo), (''MADPO'', madpo), (''TRIX'', trix), (''TRMA'', trma),
           (''PDI'', pdi), (''MDI'', mdi), (''ADX'', adx), (''ADXR'', adxr),
           (''VR'', vr), (''AR'', ar), (''BR'', br),
           (''ROC'', roc), (''MAROC'', maroc), (''MTM'', mtm), (''MTMMA'', mtmma),
           (''DIF_DMA'', dif_dma), (''DIFMA_DMA'', difma_dma)]
   }"

text \<open>
  \<open>calculate_indicators\<close>, lines 165 to 262. \<open>data\<close> is \<open>self.data\<close>. The frame is
  copied, so the stored frame is not changed; the warning for fewer than 60 rows only
  prints. Any exception of the \<open>try\<close> block makes the result \<open>None\<close>.
\<close>

definition calculate_indicators :: "mytt \<Rightarrow> (pystr \<rightharpoonup> dataframe) \<Rightarrow> pystr \<Rightarrow> dataframe option" where
  "calculate_indicators mt data code =
     (case data code of
        None \<Rightarrow> None
      | Some df \<Rightarrow> do {
          assignments \<leftarrow> compute_indicators mt df;
          discard_exn (setitems df assignments)
        })"

section \<open>The report snapshot\<close>

text \<open>
  The dictionary \<open>generate_analysis_data\<close> returns has the three keys "basic data",
  "technical indicators" and "technical analysis advice"; they are the fields of the
  record, with dictionaries as lists of items in insertion order.
\<close>

record snapshot =
  basic_data :: "(pystr \<times> pystr) list"
  indicators :: "(pystr \<times> (pystr \<times> pystr) list) list"
  advice :: "pystr list"

text \<open>
  The string literals of lines 436 to 475, as code points: the keys "stock code",
  "stock name", "data status" and "error information"; the texts "data retrieval
  failed", "please check the format of the stock code", "data retrieval failed, no
  technical analysis possible", "data is empty", "the data obtained is empty, please
  check the stock code", "data is empty, no analysis possible" and "computation of the
  technical indicators failed".
\<close>

definition key_code :: pystr where
  "key_code = [32929, 31080, 20195, 30721]"

definition key_name :: pystr where
  "key_name = [32929, 31080, 21517, 31216]"

definition key_status :: pystr where
  "key_status = [25968, 25454, 29366, 24577]"

definition key_error_info :: pystr where
  "key_error_info = [38169, 35823, 20449, 24687]"

definition msg_fetch_failed :: pystr where
  "msg_fetch_failed = [25968, 25454, 33719, 21462, 22833, 36133]"

definition msg_check_code :: pystr where
  "msg_check_code =
     [35831, 26816, 26597, 32929, 31080, 20195, 30721, 26684, 24335, 26159, 21542, 27491, 30830]"

definition msg_fetch_failed_advice :: pystr where
  "msg_fetch_failed_advice =
     [25968, 25454, 33719, 21462, 22833, 36133, 65292, 26080, 27861, 36827, 34892, 25216, 26415,
      20998, 26512]"

definition msg_empty :: pystr where
  "msg_empty = [25968, 25454, 20026, 31354]"

definition msg_empty_info :: pystr where
  "msg_empty_info =
     [33719, 21462, 21040, 30340, 25968, 25454, 20026, 31354, 65292, 35831, 26816, 26597, 32929,
      31080, 20195, 30721]"

definition msg_empty_advice :: pystr where
  "msg_empty_advice =
     [25968, 25454, 20026, 31354, 65292, 26080, 27861, 36827, 34892, 20998, 26512]"

definition msg_calc_failed :: pystr where
  "msg_calc_failed = [25216, 26415, 25351, 26631, 35745, 31639, 22833, 36133]"

text \<open>
  \<open>get_stock_name\<close>, lines 134 to 136: \<open>stock_names\<close> maps a name to a code; the
  reversed dictionary is built item by item, so for a code with several names the last
  one stays. A code without a name is its own name.
\<close>

definition get_stock_name :: "(pystr \<times> pystr) list \<Rightarrow> pystr \<Rightarrow> pystr" where
  "get_stock_name stock_names code =
     (case map_of (rev (map (\<lambda>(k, v). (v, k)) stock_names)) code of
        None \<Rightarrow> code | Some k \<Rightarrow> k)"

text \<open>\<open>df.empty\<close>: no rows or no columns.\<close>

definition df_empty :: "dataframe \<Rightarrow> bool" where
  "df_empty df = (index df = [] \<or> columns df = [])"

text \<open>
  \<open>generate_analysis_data\<close>, lines 430 to 559. The three early returns are modelled
  as written. Lines 478 to 559, which format the last row, call the signal generator
  and the optional narrative and have their own handler, are the parameter
  \<open>full_report\<close>: it gets the code, the stored frame and the augmented table.
\<close>

definition generate_analysis_data ::
  "mytt \<Rightarrow> (pystr \<Rightarrow> dataframe \<Rightarrow> dataframe \<Rightarrow> snapshot) \<Rightarrow> (pystr \<times> pystr) list
     \<Rightarrow> (pystr \<rightharpoonup> dataframe) \<Rightarrow> pystr \<Rightarrow> snapshot" where
  "generate_analysis_data mt full_report stock_names data code =
     (case data code of
        None \<Rightarrow>
          \<lparr>basic_data = [(key_code, code), (key_name, get_stock_name stock_names code),
                         (key_status, msg_fetch_failed), (key_error_info, msg_check_code)],
           indicators = [],
           advice = [msg_fetch_failed_advice]\<rparr>
      | Some df \<Rightarrow>
          if df_empty df then
            \<lparr>basic_data = [(key_code, code), (key_name, get_stock_name stock_names code),
                           (key_status, msg_empty), (key_error_info, msg_empty_info)],
             indicators = [],
             advice = [msg_empty_advice]\<rparr>
          else
            (case calculate_indicators mt data code of
               None \<Rightarrow>
                 \<lparr>basic_data = [(key_code, code), (key_name, get_stock_name stock_names code),
                                (key_status, msg_calc_failed)],
                  indicators = [],
                  advice = [msg_calc_failed]\<rparr>
             | Some latest_df \<Rightarrow> full_report code df latest_df))"

text \<open>
  The loop of \<open>generate_html_report\<close>, lines 626 to 628 (the same in
  \<open>generate_simple_html_report\<close>, lines 801 to 804): one snapshot for every code of
  \<open>stock_codes\<close> that has data, in that order. The HTML made from a snapshot is not
  modelled.
\<close>

definition report_snapshots ::
  "mytt \<Rightarrow> (pystr \<Rightarrow> dataframe \<Rightarrow> dataframe \<Rightarrow> snapshot) \<Rightarrow> (pystr \<times> pystr) list
     \<Rightarrow> (pystr \<rightharpoonup> dataframe) \<Rightarrow> pystr list \<Rightarrow> snapshot list" where
  "report_snapshots mt full_report stock_names data stock_codes =
     map (generate_analysis_data mt full_report stock_names data)
       (filter (\<lambda>code. data code \<noteq> None) stock_codes)"

section \<open>Notions used to state the properties of the assembler\<close>

text \<open>The labels assigned at lines 215 to 256, in source order.\<close>

definition indicator_labels :: "string list" where
  "indicator_labels =
     [''MACD'', ''DIF'', ''DEA'', ''K'', ''D'', ''J'', ''BOLL_UP'', ''BOLL_MID'', ''BOLL_LOW'',
      ''RSI'', ''PSY'', ''PSYMA'', ''WR'', ''WR1'', ''BIAS1'', ''BIAS2'', ''BIAS3'', ''CCI'',
      ''MA5'', ''MA10'', ''MA20'', ''MA60'', ''ATR'', ''EMV'', ''MAEMV'', ''DPO'', ''MADPO'',
      ''TRIX'', ''TRMA'', ''PDI'', ''MDI'', ''ADX'', ''ADXR'', ''VR'', ''AR'', ''BR'', ''ROC'',
      ''MAROC'', ''MTM'', ''MTMMA'', ''DIF_DMA'', ''DIFMA_DMA'']"

text \<open>
  For every call of the library in lines 185 to 213, in source order, whether it
  returns (rather than raises) on the arrays of the frame.
\<close>

definition indicator_calls :: "mytt \<Rightarrow> array \<Rightarrow> array \<Rightarrow> array \<Rightarrow> array \<Rightarrow> array \<Rightarrow> bool list" where
  "indicator_calls mt close open_price high low volume =
     [mt_MACD mt close \<noteq> None, mt_KDJ mt close high low \<noteq> None, mt_BOLL mt close \<noteq> None,
      mt_RSI mt close 14 \<noteq> None, mt_PSY mt close \<noteq> None, mt_WR mt close high low \<noteq> None,
      mt_BIAS mt close \<noteq> None, mt_CCI mt close high low \<noteq> None,
      mt_MA mt close 5 \<noteq> None, mt_MA mt close 10 \<noteq> None, mt_MA mt close 20 \<noteq> None,
      mt_MA mt close 60 \<noteq> None, mt_ATR mt close high low \<noteq> None,
      mt_EMV mt high low volume \<noteq> None, mt_DPO mt close \<noteq> None, mt_TRIX mt close \<noteq> None,
      mt_DMI mt close high low \<noteq> None, mt_VR mt close volume \<noteq> None,
      mt_BRAR mt open_price close high low \<noteq> None, mt_ROC mt close \<noteq> None,
      mt_MTM mt close \<noteq> None, mt_DMA mt close \<noteq> None]"

text \<open>The five input columns can be read and no call of the library raises.\<close>

definition all_indicators_computed :: "mytt \<Rightarrow> dataframe \<Rightarrow> bool" where
  "all_indicators_computed mt df =
     (case (getitem df ''close'', getitem df ''open'', getitem df ''high'', getitem df ''low'',
            getitem df ''volume'') of
        (Inr close, Inr open_price, Inr high, Inr low, Inr volume) \<Rightarrow>
          list_all (\<lambda>returns. returns) (indicator_calls mt close open_price high low volume)
      | _ \<Rightarrow> False)"

text \<open>A finite value between 0 and 100.\<close>

definition in_0_100 :: "float64 \<Rightarrow> bool" where
  "in_0_100 v = (case v of Finite x \<Rightarrow> 0 \<le> x \<and> x \<le> 100 | _ \<Rightarrow> False)"

text \<open>
  Modelled from the spec: the function \<open>RSI\<close> of the module \<open>MyTT\<close> is missing from
  the sources. By section 4.2 its result is "scaled to 0-100", with not-a-number where
  the quotient is undefined: every value of the array it returns is not-a-number or
  lies between 0 and 100.
\<close>

definition rsi_in_range :: "array \<Rightarrow> bool" where
  "rsi_in_range raw = list_all (\<lambda>v. v = NaN \<or> in_0_100 v) raw"

text \<open>Column \<open>c\<close> of the table is exactly the array \<open>a\<close>.\<close>

definition stored :: "dataframe \<Rightarrow> string \<Rightarrow> array \<Rightarrow> bool" where
  "stored df c a = (map_of (columns df) c = Some a)"

text \<open>The column of a label in what the assembler returns, if it returns a table.\<close>

definition column_of_result :: "dataframe option \<Rightarrow> string \<Rightarrow> array option" where
  "column_of_result result c = (case result of None \<Rightarrow> None | Some df \<Rightarrow> map_of (columns df) c)"

section \<open>A sample library and sample data\<close>

text \<open>
  A stand-in for the library, used to run the assembler on concrete input: every
  function returns arrays as long as its first argument, \<open>RSI\<close> and \<open>MA\<close> leave the
  first position undefined, and \<open>RSI\<close> raises on a close price that is not a number.
\<close>

definition undefined_first :: "array \<Rightarrow> array" where
  "undefined_first xs = (case xs of [] \<Rightarrow> [] | x # rest \<Rightarrow> NaN # rest)"

definition sample_library :: mytt where
  "sample_library =
     \<lparr>mt_MACD = (\<lambda>c. Some (c, c, c)),
      mt_KDJ = (\<lambda>c h l. Some (c, h, l)),
      mt_BOLL = (\<lambda>c. Some (c, c, c)),
      mt_RSI = (\<lambda>c n. if NaN \<in> set c then None else Some (undefined_first c)),
      mt_PSY = (\<lambda>c. Some (c, c)),
      mt_WR = (\<lambda>c h l. Some (h, l)),
      mt_BIAS = (\<lambda>c. Some (c, c, c)),
      mt_CCI = (\<lambda>c h l. Some c),
      mt_MA = (\<lambda>c n. Some (undefined_first c)),
      mt_ATR = (\<lambda>c h l. Some h),
      mt_EMV = (\<lambda>h l v. Some (h, l)),
      mt_DPO = (\<lambda>c. Some (c, c)),
      mt_TRIX = (\<lambda>c. Some (c, c)),
      mt_DMI = (\<lambda>c h l. Some (h, l, c, c)),
      mt_VR = (\<lambda>c v. Some v),
      mt_BRAR = (\<lambda>opn c h l. Some (opn, c)),
      mt_ROC = (\<lambda>c. Some (c, c)),
      mt_MTM = (\<lambda>c. Some (c, c)),
      mt_DMA = (\<lambda>c. Some (c, c))\<rparr>"

definition sample_frame :: dataframe where
  "sample_frame =
     \<lparr>index = [0, 1],
      columns = [(''open'', [Finite 10, Finite 11]), (''close'', [Finite 11, Finite 30]),
                 (''high'', [Finite 12, Finite 31]), (''low'', [Finite 9, Finite 10]),
                 (''volume'', [Finite 1000, Finite 1200])]\<rparr>"

definition broken_frame :: dataframe where
  "broken_frame =
     \<lparr>index = [0, 1],
      columns = [(''open'', [Finite 10, Finite 11]), (''close'', [Finite 11, NaN]),
                 (''high'', [Finite 12, Finite 31]), (''low'', [Finite 9, Finite 10]),
                 (''volume'', [Finite 1000, Finite 1200])]\<rparr>"

definition code_a :: pystr where
  "code_a = codepoints ''sh000001''"

definition code_b :: pystr where
  "code_b = codepoints ''sz399001''"

definition sample_data :: "pystr \<rightharpoonup> dataframe" where
  "sample_data = [code_a \<mapsto> broken_frame, code_b \<mapsto> sample_frame]"

text \<open>A stand-in for lines 478 to 559: the signals of the augmented table, nothing else.\<close>

definition sample_report :: "pystr \<Rightarrow> dataframe \<Rightarrow> dataframe \<Rightarrow> snapshot" where
  "sample_report code df latest_df =
     \<lparr>basic_data = [(key_code, code)], indicators = [],
      advice = generate_trading_signals latest_df\<rparr>"

text \<open>The dictionary of the source's own example: the name of the index sh000001.\<close>

definition sample_names :: "(pystr \<times> pystr) list" where
  "sample_names = [([19978, 35777, 25351, 25968], code_a)]"

section \<open>Facts about the messages\<close>

lemmas rule_defs = macd_rule_def kdj_rule_def rsi_rule_def boll_rule_def dmi_rule_def vr_rule_def roc_rule_def
lemmas msg_defs = msg_macd_golden_def msg_macd_dead_def msg_kdj_oversold_def msg_kdj_overbought_def
  msg_rsi_oversold_def msg_rsi_overbought_def msg_boll_up_def msg_boll_low_def msg_dmi_golden_def
  msg_dmi_dead_def msg_vr_high_def msg_vr_low_def msg_roc_up_def msg_roc_down_def
lemmas expr_defs = if_elif_append_def py_and_def compare_def const_def item_def getitem_def iloc_def fgt_def fge_def
lemmas gen_defs = generate_trading_signals_def len_def signal_rules_def rule_defs expr_defs
lemmas table_defs = quiet_table_def quiet_columns_def oversold_table_def macd_zero_table_def
  rsi20_table_def rsi_low_table_def no_macd_table_def no_rsi_table_def one_row_table_def no_row_table_def

lemma rule_index_msgs:
  "rule_index msg_macd_golden = 1" "rule_index msg_macd_dead = 1"
  "rule_index msg_kdj_oversold = 2" "rule_index msg_kdj_overbought = 2"
  "rule_index msg_rsi_oversold = 3" "rule_index msg_rsi_overbought = 3"
  "rule_index msg_boll_up = 4" "rule_index msg_boll_low = 4"
  "rule_index msg_dmi_golden = 5" "rule_index msg_dmi_dead = 5"
  "rule_index msg_vr_high = 6" "rule_index msg_vr_low = 6"
  "rule_index msg_roc_up = 7" "rule_index msg_roc_down = 7"
  by (simp_all add: rule_index_def msg_defs)

lemma rule_index_diagnostic: "rule_index (diagnostic e) = 8"
  by (simp add: rule_index_def diagnostic_def msg_error_prefix_def msg_defs)

lemma rule_index_no_signal: "rule_index msg_no_signal = 8"
  by (simp add: rule_index_def msg_no_signal_def msg_defs)

lemma rule_index_insufficient: "rule_index msg_insufficient_data = 8"
  by (simp add: rule_index_def msg_insufficient_data_def msg_defs)

lemma is_diagnostic_index:
  assumes "is_diagnostic m"
  shows "rule_index m = 8"
proof -
  from assms have "m = msg_error_prefix @ drop (length msg_error_prefix) m"
    unfolding is_diagnostic_def by (metis append_take_drop_id)
  then obtain x where "m = msg_error_prefix @ x" ..
  then show ?thesis by (simp add: rule_index_def msg_error_prefix_def msg_defs)
qed

lemma is_diagnostic_diagnostic: "is_diagnostic (diagnostic e)"
  by (simp add: is_diagnostic_def diagnostic_def)


section \<open>Each statement appends at most one message of its own rule\<close>

lemma if_elif_append_cases:
  assumes "if_elif_append c1 m1 c2 m2 s = Inr s'"
  shows "s' = s \<or> s' = s @ [m1] \<or> s' = s @ [m2]"
  using assms by (auto simp: if_elif_append_def split: sum.splits if_splits)

lemma ordered_upto_append:
  assumes "ordered_upto j s" and "j < rule_index m" and "rule_index m \<le> k"
  shows "ordered_upto k (s @ [m])"
  using assms by (auto simp: ordered_upto_def sorted_wrt_append list_all_iff)

lemma ordered_upto_mono:
  assumes "ordered_upto j s" and "j \<le> k"
  shows "ordered_upto k s"
  using assms by (auto simp: ordered_upto_def list_all_iff)

lemma if_elif_append_appended:
  assumes "if_elif_append c1 m1 c2 m2 s = Inr (s @ [m])"
  shows "(c1 = Inr True \<and> m = m1) \<or> (c1 = Inr False \<and> c2 = Inr True \<and> m = m2)"
  using assms by (auto simp: if_elif_append_def split: sum.splits if_splits)

lemma rule_appends:
  assumes "i < length (signal_rules df)" and "(signal_rules df ! i) t = Inr t'"
  shows "t' = t \<or> (\<exists>m. t' = t @ [m] \<and> rule_index m = Suc i)"
proof -
  from assms(1) have "i < 7" by (simp add: signal_rules_def)
  then consider "i = 0" | "i = 1" | "i = 2" | "i = 3" | "i = 4" | "i = 5" | "i = 6" by linarith
  then show ?thesis
  proof cases
    case 1
    with assms(2) have "macd_rule df t = Inr t'" by (simp add: signal_rules_def)
    from if_elif_append_cases [OF this [unfolded macd_rule_def]]
    show ?thesis using 1 by (auto simp: rule_index_msgs)
  next
    case 2
    with assms(2) have "kdj_rule df t = Inr t'" by (simp add: signal_rules_def)
    from if_elif_append_cases [OF this [unfolded kdj_rule_def]]
    show ?thesis using 2 by (auto simp: rule_index_msgs)
  next
    case 3
    with assms(2) have "rsi_rule df t = Inr t'" by (simp add: signal_rules_def)
    from if_elif_append_cases [OF this [unfolded rsi_rule_def]]
    show ?thesis using 3 by (auto simp: rule_index_msgs)
  next
    case 4
    with assms(2) have "boll_rule df t = Inr t'" by (simp add: signal_rules_def)
    from if_elif_append_cases [OF this [unfolded boll_rule_def]]
    show ?thesis using 4 by (auto simp: rule_index_msgs)
  next
    case 5
    with assms(2) have "dmi_rule df t = Inr t'" by (simp add: signal_rules_def)
    from if_elif_append_cases [OF this [unfolded dmi_rule_def]]
    show ?thesis using 5 by (auto simp: rule_index_msgs)
  next
    case 6
    with assms(2) have "vr_rule df t = Inr t'" by (simp add: signal_rules_def)
    from if_elif_append_cases [OF this [unfolded vr_rule_def]]
    show ?thesis using 6 by (auto simp: rule_index_msgs)
  next
    case 7
    with assms(2) have "roc_rule df t = Inr t'" by (simp add: signal_rules_def)
    from if_elif_append_cases [OF this [unfolded roc_rule_def]]
    show ?thesis using 7 by (auto simp: rule_index_msgs)
  qed
qed


lemma rules_ordered:
  assumes "i < length (signal_rules df)" and "(signal_rules df ! i) s = Inr s'"
    and "ordered_upto i s"
  shows "ordered_upto (Suc i) s'"
proof -
  from rule_appends [OF assms(1,2)]
  consider "s' = s" | m where "s' = s @ [m]" "rule_index m = Suc i" by blast
  then show ?thesis
  proof cases
    case 1
    with assms(3) show ?thesis by (simp add: ordered_upto_mono)
  next
    case 2
    with assms(3) show ?thesis by (simp add: ordered_upto_append [where j = i])
  qed
qed

section \<open>The block of rules\<close>

lemma run_rules_append:
  "run_rules (pre @ post) s =
     (case run_rules pre s of (t, None) \<Rightarrow> run_rules post t | (t, Some e) \<Rightarrow> (t, Some e))"
  by (induction pre arbitrary: s) (auto split: sum.splits)

text \<open>What the block appends was appended by one of its rules, and the list only grows.\<close>

lemma run_rules_origin:
  assumes "run_rules rs s = (s', eo)"
    and "\<forall>r \<in> set rs. \<forall>t t'. r t = Inr t' \<longrightarrow> t' = t \<or> (\<exists>m. t' = t @ [m])"
  shows "\<exists>u. s' = s @ u \<and> (\<forall>m \<in> set u. \<exists>r \<in> set rs. \<exists>t. r t = Inr (t @ [m]))"
  using assms
proof (induction rs arbitrary: s)
  case Nil
  then show ?case by simp
next
  case (Cons r rs)
  show ?case
  proof (cases "r s")
    case (Inl e)
    with Cons.prems(1) show ?thesis by simp
  next
    case (Inr t)
    with Cons.prems(1) have run: "run_rules rs t = (s', eo)" by simp
    have "\<exists>u. s' = t @ u \<and> (\<forall>m \<in> set u. \<exists>r \<in> set rs. \<exists>t. r t = Inr (t @ [m]))"
      by (rule Cons.IH [OF run]) (use Cons.prems(2) in auto)
    then obtain u where u: "s' = t @ u" "\<forall>m \<in> set u. \<exists>r \<in> set rs. \<exists>t. r t = Inr (t @ [m])"
      by blast
    from Cons.prems(2) Inr consider "t = s" | m where "t = s @ [m]" by auto
    then show ?thesis
    proof cases
      case 1
      with u show ?thesis by auto
    next
      case 2
      with Inr have "r s = Inr (s @ [m])" by simp
      with u 2 have "s' = s @ (m # u) \<and> (\<forall>x \<in> set (m # u). \<exists>q \<in> set (r # rs). \<exists>t. q t = Inr (t @ [x]))"
        by auto
      then show ?thesis by blast
    qed
  qed
qed

lemma signal_rules_grow:
  assumes "r \<in> set (signal_rules df)" and "r t = Inr t'"
  shows "t' = t \<or> (\<exists>m. t' = t @ [m])"
proof -
  from assms(1) obtain i where "i < length (signal_rules df)" "signal_rules df ! i = r"
    by (auto simp: in_set_conv_nth)
  with rule_appends [of i df t t'] assms(2) show ?thesis by auto
qed

lemma run_rules_ordered:
  assumes "run_rules rs s = (s', eo)" and "ordered_upto k s"
    and "\<And>i t t'. i < length rs \<Longrightarrow> (rs ! i) t = Inr t' \<Longrightarrow> ordered_upto (k + i) t \<Longrightarrow> ordered_upto (Suc (k + i)) t'"
  shows "ordered_upto (k + length rs) s'"
  using assms
proof (induction rs arbitrary: s k)
  case Nil
  then show ?case by simp
next
  case (Cons r rs)
  show ?case
  proof (cases "r s")
    case (Inl e)
    with Cons.prems(1) have "s' = s" by simp
    with Cons.prems(2) show ?thesis by (simp add: ordered_upto_mono)
  next
    case (Inr t)
    with Cons.prems(1) have run: "run_rules rs t = (s', eo)" by simp
    from Cons.prems(3) [of 0 s t] Inr Cons.prems(2) have ord: "ordered_upto (Suc k) t" by simp
    have "ordered_upto (Suc k + length rs) s'"
    proof (rule Cons.IH [OF run ord])
      fix i u u'
      assume "i < length rs" "(rs ! i) u = Inr u'" "ordered_upto (Suc k + i) u"
      then show "ordered_upto (Suc (Suc k + i)) u'"
        using Cons.prems(3) [of "Suc i" u u'] by simp
    qed
    then show ?thesis by simp
  qed
qed

lemma try_block_ordered:
  assumes "run_rules (signal_rules df) [] = (s, eo)"
  shows "ordered_upto 7 s"
proof -
  have "ordered_upto (0 + length (signal_rules df)) s"
  proof (rule run_rules_ordered [OF assms])
    show "ordered_upto 0 []" by (simp add: ordered_upto_def)
  next
    fix i t t'
    assume "i < length (signal_rules df)" "(signal_rules df ! i) t = Inr t'" "ordered_upto (0 + i) t"
    then show "ordered_upto (Suc (0 + i)) t'" using rules_ordered [of i df t t'] by simp
  qed
  then show ?thesis by (simp add: signal_rules_def eval_nat_numeral)
qed

lemma signals_sorted: "sorted_wrt (<) (map rule_index (generate_trading_signals df))"
proof (cases "len df < 2")
  case True
  then show ?thesis by (simp add: generate_trading_signals_def)
next
  case False
  obtain s eo where run: "run_rules (signal_rules df) [] = (s, eo)" by (cases "run_rules (signal_rules df) []")
  from try_block_ordered [OF run] have ord: "ordered_upto 7 s" .
  show ?thesis
  proof (cases eo)
    case None
    with run False ord show ?thesis
      by (simp add: generate_trading_signals_def ordered_upto_def)
  next
    case (Some e)
    from ord have "ordered_upto 8 (s @ [diagnostic e])"
      by (rule ordered_upto_append) (simp_all add: rule_index_diagnostic)
    with run False Some show ?thesis
      by (simp add: generate_trading_signals_def ordered_upto_def)
  qed
qed


text \<open>A message of rule number i+1 in the output was appended by the i-th statement.\<close>

lemma appended_by_rule:
  assumes "m \<in> set (generate_trading_signals df)" and "rule_index m = Suc i" and "i < 7"
  shows "2 \<le> len df \<and> (\<exists>t. (signal_rules df ! i) t = Inr (t @ [m]))"
proof -
  have long: "\<not> len df < 2"
  proof
    assume "len df < 2"
    with assms(1) have "m = msg_insufficient_data" by (simp add: generate_trading_signals_def)
    with assms(2,3) show False by (simp add: rule_index_insufficient)
  qed
  obtain s eo where run: "run_rules (signal_rules df) [] = (s, eo)"
    by (cases "run_rules (signal_rules df) []")
  have "\<forall>r \<in> set (signal_rules df). \<forall>t t'. r t = Inr t' \<longrightarrow> t' = t \<or> (\<exists>m. t' = t @ [m])"
    using signal_rules_grow by blast
  from run_rules_origin [OF run this]
  have origin: "\<forall>x \<in> set s. \<exists>r \<in> set (signal_rules df). \<exists>t. r t = Inr (t @ [x])" by auto
  have "m \<in> set s"
  proof (cases eo)
    case None
    with run long assms(1) have "m \<in> set s \<or> m = msg_no_signal"
      by (auto simp: generate_trading_signals_def split: if_splits)
    with assms(2,3) show ?thesis by (auto simp: rule_index_no_signal)
  next
    case (Some e)
    with run long assms(1) have "m \<in> set s \<or> m = diagnostic e"
      by (auto simp: generate_trading_signals_def split: if_splits)
    with assms(2,3) show ?thesis by (auto simp: rule_index_diagnostic)
  qed
  with origin obtain r t where r: "r \<in> set (signal_rules df)" "r t = Inr (t @ [m])" by blast
  then obtain j where j: "j < length (signal_rules df)" "signal_rules df ! j = r"
    by (auto simp: in_set_conv_nth)
  with rule_appends [of j df t "t @ [m]"] r(2) have "rule_index m = Suc j" by auto
  with assms(2) have "j = i" by simp
  with j r(2) long show ?thesis by auto
qed

text \<open>When the first k statements do not raise, the output starts with what they appended.\<close>

lemma output_prefix:
  assumes "2 \<le> len df" and "signal_rules df = pre @ post" and "run_rules pre [] = (s, None)"
    and "s \<noteq> []"
  shows "\<exists>u. generate_trading_signals df = s @ u"
proof -
  obtain s' eo where run: "run_rules post s = (s', eo)" by (cases "run_rules post s")
  have "\<forall>r \<in> set post. \<forall>t t'. r t = Inr t' \<longrightarrow> t' = t \<or> (\<exists>m. t' = t @ [m])"
    using signal_rules_grow [of _ df] assms(2) by auto
  from run_rules_origin [OF run this] obtain u where u: "s' = s @ u" by blast
  from run assms(2,3) have "run_rules (signal_rules df) [] = (s', eo)"
    by (simp add: run_rules_append)
  with assms(1,4) u show ?thesis
    by (cases eo) (auto simp: generate_trading_signals_def)
qed

lemma signals_distinct: "distinct (generate_trading_signals df)"
proof -
  have "distinct (map rule_index (generate_trading_signals df))"
    using signals_sorted [of df] by (simp add: strict_sorted_iff)
  then show ?thesis by (simp add: distinct_map)
qed


section \<open>Well-formed and augmented tables\<close>

lemma wf_column_length:
  assumes "wf_dataframe df" and "map_of (columns df) c = Some col"
  shows "length col = len df"
proof -
  from assms(2) have "(c, col) \<in> set (columns df)" by (rule map_of_SomeD)
  with assms(1) show ?thesis by (auto simp: wf_dataframe_def len_def list_all_iff)
qed

lemma augmented_item:
  assumes "augmented df" and "2 \<le> len df" and "c \<in> set signal_columns"
  shows "\<exists>v w. item df c (-1) = Inr v \<and> item df c (-2) = Inr w"
proof -
  from assms(1,3) obtain col where col: "map_of (columns df) c = Some col"
    by (auto simp: augmented_def list_all_iff)
  with assms(1) have "length col = len df" by (auto simp: augmented_def intro: wf_column_length)
  with assms(2) col show ?thesis by (simp add: item_def getitem_def iloc_def)
qed


section \<open>Order of the output\<close>

lemma augmented_cells:
  assumes "augmented df" and "2 \<le> len df" and "c \<in> set signal_columns"
  shows "item df c (-1) = Inr (latest_cell df c) \<and> item df c (-2) = Inr (previous_cell df c)"
  using augmented_item [OF assms] by (auto simp: latest_cell_def previous_cell_def)

text \<open>
  Claim C1. The rules are evaluated in the fixed order MACD crossover, KDJ extremes, RSI
  extremes, Bollinger breakout, DMI crossover, VR thresholds, ROC against its average,
  and the output keeps that order. For every table, at any two positions of the output
  the rule numbers increase strictly. For every augmented table with at least two rows,
  the output is exactly the messages of the rules whose condition holds on the last two
  rows, one per rule, concatenated in that order (or the "no clear signal" message when
  there is none): each rule that fires contributes its message, and at its place. In
  particular, when the last row has K = D = 15 and RSI = 10, the KDJ-oversold message
  is in the output, directly followed by the RSI-oversold message.
\<close>

theorem signals_in_rule_order:
  "(\<forall>i j. i < j \<and> j < length (generate_trading_signals df) \<longrightarrow>
      rule_index (generate_trading_signals df ! i) < rule_index (generate_trading_signals df ! j))
   \<and> (augmented df \<and> 2 \<le> len df \<longrightarrow>
        generate_trading_signals df =
          (let fired =
               (if fgt (latest_cell df ''MACD'') (Finite 0) \<and> fge (Finite 0) (previous_cell df ''MACD'')
                then [msg_macd_golden]
                else if flt (latest_cell df ''MACD'') (Finite 0) \<and> fle (Finite 0) (previous_cell df ''MACD'')
                then [msg_macd_dead] else [])
             @ (if flt (latest_cell df ''K'') (Finite 20) \<and> flt (latest_cell df ''D'') (Finite 20)
                then [msg_kdj_oversold]
                else if fgt (latest_cell df ''K'') (Finite 80) \<and> fgt (latest_cell df ''D'') (Finite 80)
                then [msg_kdj_overbought] else [])
             @ (if flt (latest_cell df ''RSI'') (Finite 20) then [msg_rsi_oversold]
                else if fgt (latest_cell df ''RSI'') (Finite 80) then [msg_rsi_overbought] else [])
             @ (if fgt (latest_cell df ''close'') (latest_cell df ''BOLL_UP'') then [msg_boll_up]
                else if flt (latest_cell df ''close'') (latest_cell df ''BOLL_LOW'') then [msg_boll_low]
                else [])
             @ (if fgt (latest_cell df ''PDI'') (latest_cell df ''MDI'')
                    \<and> fle (previous_cell df ''PDI'') (previous_cell df ''MDI'')
                then [msg_dmi_golden]
                else if flt (latest_cell df ''PDI'') (latest_cell df ''MDI'')
                    \<and> fge (previous_cell df ''PDI'') (previous_cell df ''MDI'')
                then [msg_dmi_dead] else [])
             @ (if fgt (latest_cell df ''VR'') (Finite 160) then [msg_vr_high]
                else if flt (latest_cell df ''VR'') (Finite 40) then [msg_vr_low] else [])
             @ (if fgt (latest_cell df ''ROC'') (latest_cell df ''MAROC'')
                    \<and> fle (previous_cell df ''ROC'') (previous_cell df ''MAROC'')
                then [msg_roc_up]
                else if flt (latest_cell df ''ROC'') (latest_cell df ''MAROC'')
                    \<and> fge (previous_cell df ''ROC'') (previous_cell df ''MAROC'')
                then [msg_roc_down] else [])
           in if fired = [] then [msg_no_signal] else fired))
   \<and> (augmented df \<and> 2 \<le> len df \<and> item df ''K'' (-1) = Inr (Finite 15)
        \<and> item df ''D'' (-1) = Inr (Finite 15) \<and> item df ''RSI'' (-1) = Inr (Finite 10) \<longrightarrow>
      (\<exists>pre post. generate_trading_signals df = pre @ [msg_kdj_oversold, msg_rsi_oversold] @ post))"
proof (intro conjI impI allI)
  fix i j
  assume "i < j \<and> j < length (generate_trading_signals df)"
  with signals_sorted [of df]
  show "rule_index (generate_trading_signals df ! i) < rule_index (generate_trading_signals df ! j)"
    by (auto simp: sorted_wrt_iff_nth_less)
next
  assume h: "augmented df \<and> 2 \<le> len df"
  then have cells: "item df c (-1) = Inr (latest_cell df c)" "item df c (-2) = Inr (previous_cell df c)"
    if "c \<in> set signal_columns" for c
    using augmented_cells [of df c] that by simp_all
  note cell = cells [unfolded signal_columns_def, simplified]
  note eval = if_elif_append_def py_and_def compare_def const_def
  define p1 where "p1 =
     (if fgt (latest_cell df ''MACD'') (Finite 0) \<and> fge (Finite 0) (previous_cell df ''MACD'')
      then [msg_macd_golden]
      else if flt (latest_cell df ''MACD'') (Finite 0) \<and> fle (Finite 0) (previous_cell df ''MACD'')
      then [msg_macd_dead] else [])"
  define p2 where "p2 =
     (if flt (latest_cell df ''K'') (Finite 20) \<and> flt (latest_cell df ''D'') (Finite 20)
      then [msg_kdj_oversold]
      else if fgt (latest_cell df ''K'') (Finite 80) \<and> fgt (latest_cell df ''D'') (Finite 80)
      then [msg_kdj_overbought] else [])"
  define p3 where "p3 =
     (if flt (latest_cell df ''RSI'') (Finite 20) then [msg_rsi_oversold]
      else if fgt (latest_cell df ''RSI'') (Finite 80) then [msg_rsi_overbought] else [])"
  define p4 where "p4 =
     (if fgt (latest_cell df ''close'') (latest_cell df ''BOLL_UP'') then [msg_boll_up]
      else if flt (latest_cell df ''close'') (latest_cell df ''BOLL_LOW'') then [msg_boll_low]
      else [])"
  define p5 where "p5 =
     (if fgt (latest_cell df ''PDI'') (latest_cell df ''MDI'')
          \<and> fle (previous_cell df ''PDI'') (previous_cell df ''MDI'')
      then [msg_dmi_golden]
      else if flt (latest_cell df ''PDI'') (latest_cell df ''MDI'')
          \<and> fge (previous_cell df ''PDI'') (previous_cell df ''MDI'')
      then [msg_dmi_dead] else [])"
  define p6 where "p6 =
     (if fgt (latest_cell df ''VR'') (Finite 160) then [msg_vr_high]
      else if flt (latest_cell df ''VR'') (Finite 40) then [msg_vr_low] else [])"
  define p7 where "p7 =
     (if fgt (latest_cell df ''ROC'') (latest_cell df ''MAROC'')
          \<and> fle (previous_cell df ''ROC'') (previous_cell df ''MAROC'')
      then [msg_roc_up]
      else if flt (latest_cell df ''ROC'') (latest_cell df ''MAROC'')
          \<and> fge (previous_cell df ''ROC'') (previous_cell df ''MAROC'')
      then [msg_roc_down] else [])"
  have r1: "macd_rule df s = Inr (s @ p1)" for s
    unfolding p1_def by (simp add: macd_rule_def eval cell)
  have r2: "kdj_rule df s = Inr (s @ p2)" for s
    unfolding p2_def by (simp add: kdj_rule_def eval cell)
  have r3: "rsi_rule df s = Inr (s @ p3)" for s
    unfolding p3_def by (simp add: rsi_rule_def eval cell)
  have r4: "boll_rule df s = Inr (s @ p4)" for s
    unfolding p4_def by (simp add: boll_rule_def eval cell)
  have r5: "dmi_rule df s = Inr (s @ p5)" for s
    unfolding p5_def by (simp add: dmi_rule_def eval cell)
  have r6: "vr_rule df s = Inr (s @ p6)" for s
    unfolding p6_def by (simp add: vr_rule_def eval cell)
  have r7: "roc_rule df s = Inr (s @ p7)" for s
    unfolding p7_def by (simp add: roc_rule_def eval cell)
  have "run_rules (signal_rules df) [] = (p1 @ p2 @ p3 @ p4 @ p5 @ p6 @ p7, None)"
    by (simp add: signal_rules_def r1 r2 r3 r4 r5 r6 r7)
  with h have "generate_trading_signals df =
      (let fired = p1 @ p2 @ p3 @ p4 @ p5 @ p6 @ p7
       in if fired = [] then [msg_no_signal] else fired)"
    by (simp add: generate_trading_signals_def Let_def)
  then show "generate_trading_signals df =
          (let fired =
               (if fgt (latest_cell df ''MACD'') (Finite 0) \<and> fge (Finite 0) (previous_cell df ''MACD'')
                then [msg_macd_golden]
                else if flt (latest_cell df ''MACD'') (Finite 0) \<and> fle (Finite 0) (previous_cell df ''MACD'')
                then [msg_macd_dead] else [])
             @ (if flt (latest_cell df ''K'') (Finite 20) \<and> flt (latest_cell df ''D'') (Finite 20)
                then [msg_kdj_oversold]
                else if fgt (latest_cell df ''K'') (Finite 80) \<and> fgt (latest_cell df ''D'') (Finite 80)
                then [msg_kdj_overbought] else [])
             @ (if flt (latest_cell df ''RSI'') (Finite 20) then [msg_rsi_oversold]
                else if fgt (latest_cell df ''RSI'') (Finite 80) then [msg_rsi_overbought] else [])
             @ (if fgt (latest_cell df ''close'') (latest_cell df ''BOLL_UP'') then [msg_boll_up]
                else if flt (latest_cell df ''close'') (latest_cell df ''BOLL_LOW'') then [msg_boll_low]
                else [])
             @ (if fgt (latest_cell df ''PDI'') (latest_cell df ''MDI'')
                    \<and> fle (previous_cell df ''PDI'') (previous_cell df ''MDI'')
                then [msg_dmi_golden]
                else if flt (latest_cell df ''PDI'') (latest_cell df ''MDI'')
                    \<and> fge (previous_cell df ''PDI'') (previous_cell df ''MDI'')
                then [msg_dmi_dead] else [])
             @ (if fgt (latest_cell df ''VR'') (Finite 160) then [msg_vr_high]
                else if flt (latest_cell df ''VR'') (Finite 40) then [msg_vr_low] else [])
             @ (if fgt (latest_cell df ''ROC'') (latest_cell df ''MAROC'')
                    \<and> fle (previous_cell df ''ROC'') (previous_cell df ''MAROC'')
                then [msg_roc_up]
                else if flt (latest_cell df ''ROC'') (latest_cell df ''MAROC'')
                    \<and> fge (previous_cell df ''ROC'') (previous_cell df ''MAROC'')
                then [msg_roc_down] else [])
           in if fired = [] then [msg_no_signal] else fired)"
    unfolding p1_def p2_def p3_def p4_def p5_def p6_def p7_def .
next
  assume h: "augmented df \<and> 2 \<le> len df \<and> item df ''K'' (-1) = Inr (Finite 15)
        \<and> item df ''D'' (-1) = Inr (Finite 15) \<and> item df ''RSI'' (-1) = Inr (Finite 10)"
  then have "\<exists>v w. item df ''MACD'' (-1) = Inr v \<and> item df ''MACD'' (-2) = Inr w"
    by (intro augmented_item) (simp_all add: signal_columns_def)
  then have "\<exists>s1. macd_rule df [] = Inr s1"
    by (auto simp: macd_rule_def if_elif_append_def py_and_def compare_def const_def)
  then obtain s1 where s1: "macd_rule df [] = Inr s1" ..
  from h have kdj: "kdj_rule df s1 = Inr (s1 @ [msg_kdj_oversold])"
    by (simp add: kdj_rule_def if_elif_append_def py_and_def compare_def const_def)
  from h have rsi: "rsi_rule df (s1 @ [msg_kdj_oversold]) = Inr (s1 @ [msg_kdj_oversold, msg_rsi_oversold])"
    by (simp add: rsi_rule_def if_elif_append_def py_and_def compare_def const_def)
  have split: "signal_rules df = [macd_rule df, kdj_rule df, rsi_rule df]
      @ [boll_rule df, dmi_rule df, vr_rule df, roc_rule df]"
    by (simp add: signal_rules_def)
  have run: "run_rules [macd_rule df, kdj_rule df, rsi_rule df] []
      = (s1 @ [msg_kdj_oversold, msg_rsi_oversold], None)"
    using s1 kdj rsi by simp
  from output_prefix [OF _ split run] h
  obtain u where "generate_trading_signals df = (s1 @ [msg_kdj_oversold, msg_rsi_oversold]) @ u"
    by auto
  then have "generate_trading_signals df = s1 @ [msg_kdj_oversold, msg_rsi_oversold] @ u" by simp
  then show "\<exists>pre post. generate_trading_signals df = pre @ [msg_kdj_oversold, msg_rsi_oversold] @ post"
    by blast
qed

theorem signals_in_rule_order_witness:
  "augmented busy_table \<and> 2 \<le> len busy_table
   \<and> item busy_table ''K'' (-1) = Inr (Finite 15)
   \<and> item busy_table ''D'' (-1) = Inr (Finite 15)
   \<and> item busy_table ''RSI'' (-1) = Inr (Finite 10)
   \<and> generate_trading_signals busy_table
       = [msg_macd_golden, msg_kdj_oversold, msg_rsi_oversold, msg_boll_up, msg_dmi_golden,
          msg_vr_high, msg_roc_up]
   \<and> (\<exists>pre post. generate_trading_signals busy_table
          = pre @ [msg_kdj_oversold, msg_rsi_oversold] @ post)
   \<and> rule_index (generate_trading_signals busy_table ! 0)
        < rule_index (generate_trading_signals busy_table ! 6)"
proof -
  have a: "augmented busy_table"
    by (simp add: augmented_def wf_dataframe_def signal_columns_def busy_table_def)
  have l: "2 \<le> len busy_table" by (simp add: len_def busy_table_def)
  have k: "item busy_table ''K'' (-1) = Inr (Finite 15)"
    by (simp add: expr_defs busy_table_def)
  have d: "item busy_table ''D'' (-1) = Inr (Finite 15)"
    by (simp add: expr_defs busy_table_def)
  have r: "item busy_table ''RSI'' (-1) = Inr (Finite 10)"
    by (simp add: expr_defs busy_table_def)
  note inst = signals_in_rule_order [of busy_table]
  have cells: "latest_cell busy_table ''MACD'' = Finite 0.2" "previous_cell busy_table ''MACD'' = Finite (-0.1)"
    "latest_cell busy_table ''K'' = Finite 15" "latest_cell busy_table ''D'' = Finite 15"
    "latest_cell busy_table ''RSI'' = Finite 10" "latest_cell busy_table ''close'' = Finite 12"
    "latest_cell busy_table ''BOLL_UP'' = Finite 11" "latest_cell busy_table ''BOLL_LOW'' = Finite 9"
    "latest_cell busy_table ''PDI'' = Finite 25" "latest_cell busy_table ''MDI'' = Finite 20"
    "previous_cell busy_table ''PDI'' = Finite 20" "previous_cell busy_table ''MDI'' = Finite 20"
    "latest_cell busy_table ''VR'' = Finite 170" "latest_cell busy_table ''ROC'' = Finite 1"
    "latest_cell busy_table ''MAROC'' = Finite 0" "previous_cell busy_table ''ROC'' = Finite 0"
    "previous_cell busy_table ''MAROC'' = Finite 0"
    by (simp_all add: latest_cell_def previous_cell_def item_def getitem_def iloc_def busy_table_def)
  from a l have "generate_trading_signals busy_table = (let fired =
               (if fgt (latest_cell busy_table ''MACD'') (Finite 0) \<and> fge (Finite 0) (previous_cell busy_table ''MACD'')
                then [msg_macd_golden]
                else if flt (latest_cell busy_table ''MACD'') (Finite 0) \<and> fle (Finite 0) (previous_cell busy_table ''MACD'')
                then [msg_macd_dead] else [])
             @ (if flt (latest_cell busy_table ''K'') (Finite 20) \<and> flt (latest_cell busy_table ''D'') (Finite 20)
                then [msg_kdj_oversold]
                else if fgt (latest_cell busy_table ''K'') (Finite 80) \<and> fgt (latest_cell busy_table ''D'') (Finite 80)
                then [msg_kdj_overbought] else [])
             @ (if flt (latest_cell busy_table ''RSI'') (Finite 20) then [msg_rsi_oversold]
                else if fgt (latest_cell busy_table ''RSI'') (Finite 80) then [msg_rsi_overbought] else [])
             @ (if fgt (latest_cell busy_table ''close'') (latest_cell busy_table ''BOLL_UP'') then [msg_boll_up]
                else if flt (latest_cell busy_table ''close'') (latest_cell busy_table ''BOLL_LOW'') then [msg_boll_low]
                else [])
             @ (if fgt (latest_cell busy_table ''PDI'') (latest_cell busy_table ''MDI'')
                    \<and> fle (previous_cell busy_table ''PDI'') (previous_cell busy_table ''MDI'')
                then [msg_dmi_golden]
                else if flt (latest_cell busy_table ''PDI'') (latest_cell busy_table ''MDI'')
                    \<and> fge (previous_cell busy_table ''PDI'') (previous_cell busy_table ''MDI'')
                then [msg_dmi_dead] else [])
             @ (if fgt (latest_cell busy_table ''VR'') (Finite 160) then [msg_vr_high]
                else if flt (latest_cell busy_table ''VR'') (Finite 40) then [msg_vr_low] else [])
             @ (if fgt (latest_cell busy_table ''ROC'') (latest_cell busy_table ''MAROC'')
                    \<and> fle (previous_cell busy_table ''ROC'') (previous_cell busy_table ''MAROC'')
                then [msg_roc_up]
                else if flt (latest_cell busy_table ''ROC'') (latest_cell busy_table ''MAROC'')
                    \<and> fge (previous_cell busy_table ''ROC'') (previous_cell busy_table ''MAROC'')
                then [msg_roc_down] else [])
           in if fired = [] then [msg_no_signal] else fired)"
    by (intro inst [THEN conjunct2, THEN conjunct1, rule_format] conjI)
  then have out: "generate_trading_signals busy_table
       = [msg_macd_golden, msg_kdj_oversold, msg_rsi_oversold, msg_boll_up, msg_dmi_golden,
          msg_vr_high, msg_roc_up]"
    by (simp add: cells fgt_def fge_def)
  from a l k d r have e: "\<exists>pre post. generate_trading_signals busy_table
          = pre @ [msg_kdj_oversold, msg_rsi_oversold] @ post"
    by (intro inst [THEN conjunct2, THEN conjunct2, rule_format] conjI)
  from out have n: "length (generate_trading_signals busy_table) = 7" by simp
  from n have o: "rule_index (generate_trading_signals busy_table ! 0)
        < rule_index (generate_trading_signals busy_table ! 6)"
    by (intro inst [THEN conjunct1, rule_format]) simp
  from a l k d r out e o show ?thesis by (intro conjI)
qed

section \<open>The MACD crossover rule\<close>

text \<open>What the first statement returns when both cells can be read.\<close>

lemma macd_rule_eval:
  assumes "item df ''MACD'' (-2) = Inr p" and "item df ''MACD'' (-1) = Inr l"
  shows "macd_rule df s =
    Inr (if fgt l (Finite 0) \<and> fge (Finite 0) p then s @ [msg_macd_golden]
         else if flt l (Finite 0) \<and> fle (Finite 0) p then s @ [msg_macd_dead] else s)"
  using assms by (simp add: macd_rule_def if_elif_append_def py_and_def compare_def const_def)

lemma macd_messages_differ: "msg_macd_dead \<noteq> msg_macd_golden"
  by (simp add: msg_defs)

lemma macd_rule_golden_iff:
  assumes "item df ''MACD'' (-2) = Inr p" and "item df ''MACD'' (-1) = Inr l"
  shows "macd_rule df t = Inr (t @ [msg_macd_golden])
     \<longleftrightarrow> fgt l (Finite 0) \<and> fge (Finite 0) p"
  using macd_messages_differ by (simp add: macd_rule_eval [OF assms])

lemma macd_rule_dead_iff:
  assumes "item df ''MACD'' (-2) = Inr p" and "item df ''MACD'' (-1) = Inr l"
  shows "macd_rule df t = Inr (t @ [msg_macd_dead])
     \<longleftrightarrow> \<not> (fgt l (Finite 0) \<and> fge (Finite 0) p) \<and> flt l (Finite 0) \<and> fle (Finite 0) p"
  using macd_messages_differ by (simp add: macd_rule_eval [OF assms])

lemma flt_asym: "flt a b \<Longrightarrow> \<not> flt b a"
  by (cases a; cases b) auto

lemma output_starts_with_macd:
  assumes "2 \<le> len df" and "macd_rule df [] = Inr [m]"
  shows "hd (generate_trading_signals df) = m \<and> m \<in> set (generate_trading_signals df)"
proof -
  have split: "signal_rules df = [macd_rule df]
      @ [kdj_rule df, rsi_rule df, boll_rule df, dmi_rule df, vr_rule df, roc_rule df]"
    by (simp add: signal_rules_def)
  have run: "run_rules [macd_rule df] [] = ([m], None)" using assms(2) by simp
  from output_prefix [OF assms(1) split run] obtain u
    where "generate_trading_signals df = [m] @ u" by auto
  then show ?thesis by simp
qed

lemma macd_message_origin:
  assumes "m \<in> set (generate_trading_signals df)" and "rule_index m = 1"
  shows "2 \<le> len df \<and> (\<exists>t. macd_rule df t = Inr (t @ [m]))"
  using appended_by_rule [of m df 0] assms by (simp add: signal_rules_def)

lemma count_list_one:
  assumes "distinct xs" and "x \<in> set xs"
  shows "count_list xs x = 1"
  using assms by (induction xs) (auto simp: count_list_0_iff)

text \<open>
  Claim C2, as amended. On a table with at least two rows whose MACD column can be
  read at the last two rows, the bullish message is in the output exactly when the
  previous histogram value is at most 0 and the latest is above 0, and the bearish
  message exactly when the previous value is at least 0 and the latest is below 0 (a
  not-a-number value satisfies no comparison). In particular, for the values
  (-0.1, 0.2) the bullish message is the first element of the output and occurs
  exactly once.
\<close>

theorem macd_crossover_rule:
  assumes "2 \<le> len df" and "item df ''MACD'' (-2) = Inr previous"
    and "item df ''MACD'' (-1) = Inr latest"
  shows "(msg_macd_golden \<in> set (generate_trading_signals df)
            \<longleftrightarrow> fle previous (Finite 0) \<and> flt (Finite 0) latest)
       \<and> (msg_macd_dead \<in> set (generate_trading_signals df)
            \<longleftrightarrow> fle (Finite 0) previous \<and> flt latest (Finite 0))
       \<and> (previous = Finite (-0.1) \<and> latest = Finite 0.2 \<longrightarrow>
            hd (generate_trading_signals df) = msg_macd_golden
            \<and> count_list (generate_trading_signals df) msg_macd_golden = 1)"
proof -
  note ev = macd_rule_eval [OF assms(2,3)]
  have golden: "msg_macd_golden \<in> set (generate_trading_signals df)
      \<longleftrightarrow> fle previous (Finite 0) \<and> flt (Finite 0) latest"
  proof
    assume "msg_macd_golden \<in> set (generate_trading_signals df)"
    with macd_message_origin [of msg_macd_golden df] obtain t
      where "macd_rule df t = Inr (t @ [msg_macd_golden])" by (auto simp: rule_index_msgs)
    with macd_rule_golden_iff [OF assms(2,3)]
    show "fle previous (Finite 0) \<and> flt (Finite 0) latest"
      by (simp add: fgt_def fge_def)
  next
    assume "fle previous (Finite 0) \<and> flt (Finite 0) latest"
    with ev [of "[]"] have "macd_rule df [] = Inr [msg_macd_golden]" by (simp add: fgt_def fge_def)
    with output_starts_with_macd [OF assms(1)] show "msg_macd_golden \<in> set (generate_trading_signals df)"
      by blast
  qed
  have dead: "msg_macd_dead \<in> set (generate_trading_signals df)
      \<longleftrightarrow> fle (Finite 0) previous \<and> flt latest (Finite 0)"
  proof
    assume "msg_macd_dead \<in> set (generate_trading_signals df)"
    with macd_message_origin [of msg_macd_dead df] obtain t
      where "macd_rule df t = Inr (t @ [msg_macd_dead])" by (auto simp: rule_index_msgs)
    with macd_rule_dead_iff [OF assms(2,3)]
    show "fle (Finite 0) previous \<and> flt latest (Finite 0)"
      by simp
  next
    assume h: "fle (Finite 0) previous \<and> flt latest (Finite 0)"
    then have "\<not> fgt latest (Finite 0)"
      by (simp add: fgt_def flt_asym)
    with h ev [of "[]"] have "macd_rule df [] = Inr [msg_macd_dead]" by simp
    with output_starts_with_macd [OF assms(1)] show "msg_macd_dead \<in> set (generate_trading_signals df)"
      by blast
  qed
  have particular: "hd (generate_trading_signals df) = msg_macd_golden
            \<and> count_list (generate_trading_signals df) msg_macd_golden = 1"
    if "previous = Finite (-0.1) \<and> latest = Finite 0.2"
  proof -
    from that ev [of "[]"] have "macd_rule df [] = Inr [msg_macd_golden]"
      by (simp add: fgt_def fge_def)
    from output_starts_with_macd [OF assms(1) this] signals_distinct [of df]
    show ?thesis by (simp add: count_list_one)
  qed
  from golden dead particular show ?thesis by blast
qed

theorem macd_crossover_rule_witness:
  "2 \<le> len oversold_table
   \<and> item oversold_table ''MACD'' (-2) = Inr (Finite (-0.1))
   \<and> item oversold_table ''MACD'' (-1) = Inr (Finite 0.2)
   \<and> msg_macd_golden \<in> set (generate_trading_signals oversold_table)
   \<and> msg_macd_dead \<notin> set (generate_trading_signals oversold_table)
   \<and> hd (generate_trading_signals oversold_table) = msg_macd_golden
   \<and> count_list (generate_trading_signals oversold_table) msg_macd_golden = 1"
proof -
  have l: "2 \<le> len oversold_table" by (simp add: len_def table_defs)
  have p: "item oversold_table ''MACD'' (-2) = Inr (Finite (-0.1))"
    by (simp add: expr_defs table_defs)
  have c: "item oversold_table ''MACD'' (-1) = Inr (Finite 0.2)"
    by (simp add: expr_defs table_defs)
  from macd_crossover_rule [OF l p c] l p c show ?thesis by simp
qed

text \<open>
  Claim C2 as stated fails: with the histogram values (0, 0.2) the previous value is
  not negative, so there is no change of sign from negative to positive, and yet the
  bullish message is in the output.
\<close>

theorem macd_strict_sign_change_counterexample:
  "2 \<le> len macd_zero_table
   \<and> item macd_zero_table ''MACD'' (-2) = Inr (Finite 0)
   \<and> item macd_zero_table ''MACD'' (-1) = Inr (Finite 0.2)
   \<and> \<not> negative_to_positive (Finite 0) (Finite 0.2)
   \<and> msg_macd_golden \<in> set (generate_trading_signals macd_zero_table)"
  by (simp add: negative_to_positive_def gen_defs table_defs)

text \<open>
  Claim C10. The bullish rule also fires when the previous histogram value is exactly
  zero: on a table with at least two rows whose last two MACD values are (0, h) with
  h > 0 the bullish message is appended, as first element of the output. For finite
  values the trigger is: previous at most 0 and latest above 0.
\<close>

theorem macd_golden_from_zero:
  assumes "2 \<le> len df" and "item df ''MACD'' (-2) = Inr (Finite p)"
    and "item df ''MACD'' (-1) = Inr (Finite h)"
  shows "(p = 0 \<and> 0 < h \<longrightarrow> hd (generate_trading_signals df) = msg_macd_golden)
       \<and> (msg_macd_golden \<in> set (generate_trading_signals df) \<longleftrightarrow> p \<le> 0 \<and> 0 < h)"
proof -
  note ev = macd_rule_eval [OF assms(2,3)]
  have fires: "hd (generate_trading_signals df) = msg_macd_golden
      \<and> msg_macd_golden \<in> set (generate_trading_signals df)" if "p \<le> 0 \<and> 0 < h"
  proof -
    from that ev [of "[]"] have "macd_rule df [] = Inr [msg_macd_golden]"
      by (simp add: fgt_def fge_def)
    from output_starts_with_macd [OF assms(1) this] show ?thesis .
  qed
  have only: "p \<le> 0 \<and> 0 < h" if "msg_macd_golden \<in> set (generate_trading_signals df)"
  proof -
    from that macd_message_origin [of msg_macd_golden df] obtain t
      where "macd_rule df t = Inr (t @ [msg_macd_golden])" by (auto simp: rule_index_msgs)
    with macd_rule_golden_iff [OF assms(2,3)] show ?thesis
      by (simp add: fgt_def fge_def)
  qed
  have a: "p = 0 \<and> 0 < h \<longrightarrow> hd (generate_trading_signals df) = msg_macd_golden"
  proof
    assume "p = 0 \<and> 0 < h"
    then have "p \<le> 0 \<and> 0 < h" by simp
    from fires [OF this] show "hd (generate_trading_signals df) = msg_macd_golden"
      by (rule conjunct1)
  qed
  have b: "msg_macd_golden \<in> set (generate_trading_signals df) \<longleftrightarrow> p \<le> 0 \<and> 0 < h"
  proof
    assume "msg_macd_golden \<in> set (generate_trading_signals df)"
    from only [OF this] show "p \<le> 0 \<and> 0 < h" .
  next
    assume "p \<le> 0 \<and> 0 < h"
    from fires [OF this] show "msg_macd_golden \<in> set (generate_trading_signals df)"
      by (rule conjunct2)
  qed
  from a b show ?thesis by (rule conjI)
qed

theorem macd_golden_from_zero_witness:
  "2 \<le> len macd_zero_table
   \<and> item macd_zero_table ''MACD'' (-2) = Inr (Finite 0)
   \<and> item macd_zero_table ''MACD'' (-1) = Inr (Finite 0.2)
   \<and> hd (generate_trading_signals macd_zero_table) = msg_macd_golden
   \<and> msg_macd_golden \<in> set (generate_trading_signals macd_zero_table)"
proof -
  have l: "2 \<le> len macd_zero_table" by (simp add: len_def table_defs)
  have p: "item macd_zero_table ''MACD'' (-2) = Inr (Finite 0)"
    by (simp add: expr_defs table_defs)
  have c: "item macd_zero_table ''MACD'' (-1) = Inr (Finite 0.2)"
    by (simp add: expr_defs table_defs)
  from macd_golden_from_zero [OF l p c] l p c show ?thesis by simp
qed

section \<open>No signal, exceptions, short tables\<close>

lemma run_rules_unchanged:
  assumes "list_all (\<lambda>r. r s = Inr s) rs"
  shows "run_rules rs s = (s, None)"
  using assms by (induction rs) auto

text \<open>
  Claim C3. On a table with at least two rows on which every rule returns without
  appending (no rule fires and none raises), the output is exactly the one message
  "no clear signal"; and the output is non-empty for every table.
\<close>

theorem no_rule_fires_sentinel:
  "(2 \<le> len df \<and> list_all (\<lambda>r. r [] = Inr []) (signal_rules df)
      \<longrightarrow> generate_trading_signals df = [msg_no_signal])
   \<and> generate_trading_signals df \<noteq> []"
proof
  show "2 \<le> len df \<and> list_all (\<lambda>r. r [] = Inr []) (signal_rules df)
      \<longrightarrow> generate_trading_signals df = [msg_no_signal]"
  proof
    assume h: "2 \<le> len df \<and> list_all (\<lambda>r. r [] = Inr []) (signal_rules df)"
    then have "run_rules (signal_rules df) [] = ([], None)" by (simp add: run_rules_unchanged)
    with h show "generate_trading_signals df = [msg_no_signal]"
      by (simp add: generate_trading_signals_def)
  qed
next
  show "generate_trading_signals df \<noteq> []"
    by (simp add: generate_trading_signals_def Let_def)
qed

theorem no_rule_fires_sentinel_witness:
  "2 \<le> len quiet_table \<and> list_all (\<lambda>r. r [] = Inr []) (signal_rules quiet_table)
   \<and> generate_trading_signals quiet_table = [msg_no_signal]"
proof -
  have l: "2 \<le> len quiet_table" by (simp add: len_def table_defs)
  have q: "list_all (\<lambda>r. r [] = Inr []) (signal_rules quiet_table)"
    by (simp add: signal_rules_def rule_defs expr_defs table_defs)
  from no_rule_fires_sentinel [of quiet_table, THEN conjunct1, rule_format] l q
  show ?thesis by simp
qed

text \<open>
  Claim C4 as stated fails: the handler encloses the whole block, so the statements
  after the one that raises are not evaluated. On a two-row table without the MACD
  column the first statement raises; the KDJ statement would append its oversold
  message, but the output is the diagnostic message alone.
\<close>

theorem later_rules_skipped_counterexample:
  "2 \<le> len no_macd_table
   \<and> macd_rule no_macd_table [] = Inl (KeyError ''MACD'')
   \<and> kdj_rule no_macd_table [] = Inr [msg_kdj_oversold]
   \<and> generate_trading_signals no_macd_table = [diagnostic (KeyError ''MACD'')]
   \<and> msg_kdj_oversold \<notin> set (generate_trading_signals no_macd_table)"
  by (simp add: gen_defs table_defs diagnostic_def msg_error_prefix_def msg_kdj_oversold_def)

text \<open>
  Claim C4, as amended. If a statement of the block raises, after the statements
  before it ran without raising, the function does not abort: the output is what
  those earlier statements appended, followed by exactly one diagnostic message as
  last element. None of the earlier messages is a diagnostic, the statements after
  the failing one contribute nothing, and the output is non-empty.
\<close>

theorem exception_handled_once:
  assumes "2 \<le> len df" and "signal_rules df = pre @ r # post"
    and "run_rules pre [] = (signals, None)" and "r signals = Inl e"
  shows "generate_trading_signals df = signals @ [diagnostic e]
       \<and> list_all (\<lambda>m. \<not> is_diagnostic m) signals
       \<and> is_diagnostic (diagnostic e)
       \<and> generate_trading_signals df \<noteq> []"
proof -
  from assms(2,3,4) have run: "run_rules (signal_rules df) [] = (signals, Some e)"
    by (simp add: run_rules_append)
  with assms(1) have out: "generate_trading_signals df = signals @ [diagnostic e]"
    by (simp add: generate_trading_signals_def)
  from try_block_ordered [OF run] have "list_all (\<lambda>m. rule_index m \<le> 7) signals"
    by (simp add: ordered_upto_def)
  then have "list_all (\<lambda>m. \<not> is_diagnostic m) signals"
    unfolding list_all_iff
  proof (intro ballI notI)
    fix m
    assume bound: "\<forall>m \<in> set signals. rule_index m \<le> 7" and mem: "m \<in> set signals"
      and diag: "is_diagnostic m"
    from bound mem have "rule_index m \<le> 7" by blast
    moreover from diag have "rule_index m = 8" by (rule is_diagnostic_index)
    ultimately show False by simp
  qed
  with out show ?thesis by (simp add: is_diagnostic_diagnostic)
qed

theorem exception_handled_once_witness:
  "2 \<le> len no_rsi_table
   \<and> signal_rules no_rsi_table = [macd_rule no_rsi_table, kdj_rule no_rsi_table]
        @ rsi_rule no_rsi_table
        # [boll_rule no_rsi_table, dmi_rule no_rsi_table, vr_rule no_rsi_table, roc_rule no_rsi_table]
   \<and> run_rules [macd_rule no_rsi_table, kdj_rule no_rsi_table] []
        = ([msg_macd_golden, msg_kdj_oversold], None)
   \<and> rsi_rule no_rsi_table [msg_macd_golden, msg_kdj_oversold] = Inl (KeyError ''RSI'')
   \<and> generate_trading_signals no_rsi_table
        = [msg_macd_golden, msg_kdj_oversold, diagnostic (KeyError ''RSI'')]"
proof -
  have l: "2 \<le> len no_rsi_table" by (simp add: len_def table_defs)
  have s: "signal_rules no_rsi_table = [macd_rule no_rsi_table, kdj_rule no_rsi_table]
        @ rsi_rule no_rsi_table
        # [boll_rule no_rsi_table, dmi_rule no_rsi_table, vr_rule no_rsi_table, roc_rule no_rsi_table]"
    by (simp add: signal_rules_def)
  have p: "run_rules [macd_rule no_rsi_table, kdj_rule no_rsi_table] []
        = ([msg_macd_golden, msg_kdj_oversold], None)"
    by (simp add: rule_defs expr_defs table_defs)
  have r: "rsi_rule no_rsi_table [msg_macd_golden, msg_kdj_oversold] = Inl (KeyError ''RSI'')"
    by (simp add: rule_defs expr_defs table_defs)
  from exception_handled_once [OF l s p r] l s p r show ?thesis by simp
qed

text \<open>
  Claim C5 as stated fails: on a table with one row the function does not fail with
  an error, it returns normally a list holding the "insufficient data" message.
\<close>

theorem short_table_returns_message_counterexample:
  "len one_row_table < 2 \<and> generate_trading_signals one_row_table = [msg_insufficient_data]"
  by (simp add: generate_trading_signals_def len_def one_row_table_def)

text \<open>
  Claim C5, as amended. Given a table with fewer than two rows, the signal generator
  completes normally and returns exactly one message, "insufficient data, technical
  analysis not possible"; no rule is evaluated and no error is raised.
\<close>

theorem short_table_returns_message:
  assumes "len df < 2"
  shows "generate_trading_signals df = [msg_insufficient_data]"
  using assms by (simp add: generate_trading_signals_def)

theorem short_table_returns_message_witness:
  "len no_row_table < 2 \<and> generate_trading_signals no_row_table = [msg_insufficient_data]"
proof -
  have l: "len no_row_table < 2" by (simp add: len_def no_row_table_def)
  from short_table_returns_message [OF l] l show ?thesis by simp
qed

section \<open>The RSI rule\<close>

lemma rsi_messages_differ: "msg_rsi_overbought \<noteq> msg_rsi_oversold"
  by (simp add: msg_defs)

lemma rsi_rule_appended:
  assumes "rsi_rule df t = Inr (t @ [m])"
  shows "(m = msg_rsi_oversold \<and> (\<exists>r. item df ''RSI'' (-1) = Inr r \<and> flt r (Finite 20)))
       \<or> (m = msg_rsi_overbought \<and> (\<exists>r. item df ''RSI'' (-1) = Inr r \<and> fgt r (Finite 80)))"
proof -
  from if_elif_append_appended [OF assms [unfolded rsi_rule_def]]
  show ?thesis by (auto simp: compare_def const_def split: sum.splits)
qed

lemma rsi_message_origin:
  assumes "m \<in> set (generate_trading_signals df)" and "rule_index m = 3"
  shows "\<exists>t. rsi_rule df t = Inr (t @ [m])"
  using appended_by_rule [of m df 2] assms by (simp add: signal_rules_def)

text \<open>
  Claim C9. The RSI rule compares strictly: when the RSI value of the last row is
  exactly 20, neither RSI message is in the output; the oversold message is in the
  output only when that value is below 20, and the overbought message only when it is
  above 80.
\<close>

theorem rsi_rule_strict:
  "(item df ''RSI'' (-1) = Inr (Finite 20) \<longrightarrow>
      msg_rsi_oversold \<notin> set (generate_trading_signals df)
      \<and> msg_rsi_overbought \<notin> set (generate_trading_signals df))
   \<and> (msg_rsi_oversold \<in> set (generate_trading_signals df) \<longrightarrow>
        (\<exists>r. item df ''RSI'' (-1) = Inr r \<and> flt r (Finite 20)))
   \<and> (msg_rsi_overbought \<in> set (generate_trading_signals df) \<longrightarrow>
        (\<exists>r. item df ''RSI'' (-1) = Inr r \<and> fgt r (Finite 80)))"
proof -
  have low: "\<exists>r. item df ''RSI'' (-1) = Inr r \<and> flt r (Finite 20)"
    if "msg_rsi_oversold \<in> set (generate_trading_signals df)"
  proof -
    from rsi_message_origin [OF that] obtain t where "rsi_rule df t = Inr (t @ [msg_rsi_oversold])"
      by (auto simp: rule_index_msgs)
    from rsi_rule_appended [OF this] rsi_messages_differ show ?thesis by auto
  qed
  have high: "\<exists>r. item df ''RSI'' (-1) = Inr r \<and> fgt r (Finite 80)"
    if "msg_rsi_overbought \<in> set (generate_trading_signals df)"
  proof -
    from rsi_message_origin [OF that] obtain t where "rsi_rule df t = Inr (t @ [msg_rsi_overbought])"
      by (auto simp: rule_index_msgs)
    from rsi_rule_appended [OF this] rsi_messages_differ show ?thesis by auto
  qed
  have boundary: "msg_rsi_oversold \<notin> set (generate_trading_signals df)
      \<and> msg_rsi_overbought \<notin> set (generate_trading_signals df)"
    if eq: "item df ''RSI'' (-1) = Inr (Finite 20)"
  proof (intro conjI notI)
    assume "msg_rsi_oversold \<in> set (generate_trading_signals df)"
    from low [OF this] eq show False by simp
  next
    assume "msg_rsi_overbought \<in> set (generate_trading_signals df)"
    from high [OF this] eq show False by (simp add: fgt_def)
  qed
  from low high boundary show ?thesis by blast
qed

theorem rsi_rule_strict_witness:
  "item rsi20_table ''RSI'' (-1) = Inr (Finite 20)
   \<and> msg_rsi_oversold \<notin> set (generate_trading_signals rsi20_table)
   \<and> msg_rsi_overbought \<notin> set (generate_trading_signals rsi20_table)
   \<and> msg_rsi_oversold \<in> set (generate_trading_signals rsi_low_table)
   \<and> (\<exists>r. item rsi_low_table ''RSI'' (-1) = Inr r \<and> flt r (Finite 20))"
proof -
  have b: "item rsi20_table ''RSI'' (-1) = Inr (Finite 20)"
    by (simp add: expr_defs table_defs)
  have m: "msg_rsi_oversold \<in> set (generate_trading_signals rsi_low_table)"
    by (simp add: gen_defs table_defs)
  from rsi_rule_strict [of rsi20_table] b
  have n: "msg_rsi_oversold \<notin> set (generate_trading_signals rsi20_table)
      \<and> msg_rsi_overbought \<notin> set (generate_trading_signals rsi20_table)" by blast
  from rsi_rule_strict [of rsi_low_table] m
  have e: "\<exists>r. item rsi_low_table ''RSI'' (-1) = Inr r \<and> flt r (Finite 20)" by blast
  from b m n e show ?thesis by blast
qed

section \<open>Column assignment and the computed indicators\<close>

lemma nan_to_num_length: "length (nan_to_num v xs) = length xs"
  by (simp add: nan_to_num_def)

lemma nan_to_num1_not_nan: "nan_to_num1 v x \<noteq> NaN"
  by (cases x) simp_all

lemma nan_to_num_no_nan: "list_all (\<lambda>x. x \<noteq> NaN) (nan_to_num v xs)"
  by (simp add: nan_to_num_def list_all_iff nan_to_num1_not_nan)

lemma nan_to_num_nth:
  assumes "i < length xs"
  shows "nan_to_num v xs ! i = nan_to_num1 v (xs ! i)"
  using assms by (simp add: nan_to_num_def)

lemma keys_fill: "fst ` set (map (\<lambda>(k, col). (k, f col)) al) = fst ` set al"
  by (induction al) auto

lemma setitem_keys:
  assumes "setitem df c v = Inr df'"
  shows "fst ` set (columns df') = insert c (fst ` set (columns df))"
proof (cases "index df = [] \<and> v \<noteq> []")
  case True
  with assms have "columns df' = AList.update c v
      (map (\<lambda>(k, col). (k, replicate (length v) NaN)) (columns df))"
    by (auto simp: setitem_def)
  then show ?thesis by (simp only: dom_update keys_fill) simp
next
  case False
  with assms have "columns df' = AList.update c v (columns df)"
    by (auto simp: setitem_def split: if_splits)
  then show ?thesis by (simp only: dom_update) simp
qed

lemma setitems_keys:
  assumes "setitems df assignments = Inr df'"
  shows "fst ` set (columns df') = fst ` set (columns df) \<union> fst ` set assignments"
  using assms
proof (induction assignments arbitrary: df)
  case Nil
  then show ?case by simp
next
  case (Cons a rest)
  obtain c v where a: "a = (c, v)" by (cases a)
  with Cons.prems obtain df1 where s: "setitem df c v = Inr df1" and r: "setitems df1 rest = Inr df'"
    by (auto split: sum.splits)
  from Cons.IH [OF r] setitem_keys [OF s] a show ?case by auto
qed

lemma setitem_rows:
  assumes "setitem df c v = Inr df'" and "index df \<noteq> []"
  shows "index df' = index df \<and> length v = len df
       \<and> map_of (columns df') = (map_of (columns df))(c \<mapsto> v)"
  using assms by (auto simp: setitem_def len_def update_conv' split: if_splits)

lemma setitems_rows:
  assumes "setitems df assignments = Inr df'" and "index df \<noteq> []"
    and "distinct (map fst assignments)"
  shows "index df' = index df \<and> list_all (\<lambda>(c, v). length v = len df) assignments
       \<and> (\<forall>c. map_of (columns df') c
            = (case map_of assignments c of None \<Rightarrow> map_of (columns df) c | Some v \<Rightarrow> Some v))"
  using assms
proof (induction assignments arbitrary: df)
  case Nil
  then show ?case by simp
next
  case (Cons a rest)
  obtain c v where a: "a = (c, v)" by (cases a)
  with Cons.prems(1) obtain df1 where s: "setitem df c v = Inr df1" and r: "setitems df1 rest = Inr df'"
    by (auto split: sum.splits)
  from setitem_rows [OF s Cons.prems(2)]
  have one: "index df1 = index df" "length v = len df"
    "map_of (columns df1) = (map_of (columns df))(c \<mapsto> v)" by simp_all
  from one(1) Cons.prems(2) have ne: "index df1 \<noteq> []" by simp
  from Cons.prems(3) a have d: "distinct (map fst rest)" and fresh: "map_of rest c = None"
    by (auto simp: map_of_eq_None_iff)
  from Cons.IH [OF r ne d]
  have ih: "index df' = index df1" "list_all (\<lambda>(c, v). length v = len df1) rest"
    "\<forall>x. map_of (columns df') x
            = (case map_of rest x of None \<Rightarrow> map_of (columns df1) x | Some v \<Rightarrow> Some v)"
    by simp_all
  have len: "len df1 = len df" using one(1) by (simp add: len_def)
  have "map_of (columns df') x
      = (case map_of (a # rest) x of None \<Rightarrow> map_of (columns df) x | Some v \<Rightarrow> Some v)" for x
    using ih(3) one(3) a fresh by (cases "x = c") (auto split: option.splits)
  with ih(1,2) one(1,2) len a show ?case by simp
qed

text \<open>What a successful computation returns, read off the definition.\<close>

lemma compute_indicators_labels:
  assumes "compute_indicators mt df = Some assignments"
  shows "map fst assignments = indicator_labels"
  using assms unfolding compute_indicators_def indicator_labels_def
  by (auto simp: bind_eq_Some_conv Let_def split: prod.splits)

lemma compute_indicators_rsi:
  assumes "compute_indicators mt df = Some assignments"
  shows "\<exists>close raw. getitem df ''close'' = Inr close \<and> mt_RSI mt close 14 = Some raw
           \<and> map_of assignments ''RSI'' = Some (nan_to_num 50 raw)"
  using assms unfolding compute_indicators_def
  by (auto simp: bind_eq_Some_conv Let_def discard_exn_def split: prod.splits sum.splits)

lemma compute_indicators_calls:
  assumes "compute_indicators mt df = Some assignments"
  shows "all_indicators_computed mt df"
  using assms unfolding compute_indicators_def all_indicators_computed_def indicator_calls_def
  by (auto simp: bind_eq_Some_conv Let_def discard_exn_def split: prod.splits sum.splits)

lemma indicator_labels_distinct: "distinct indicator_labels"
  by (simp add: indicator_labels_def)

lemma discard_exn_Some: "discard_exn r = Some x \<longleftrightarrow> r = Inr x"
  by (cases r) (simp_all add: discard_exn_def)

lemma calculate_indicators_Some:
  assumes "data code = Some df" and "calculate_indicators mt data code = Some df'"
  shows "\<exists>assignments. compute_indicators mt df = Some assignments
           \<and> setitems df assignments = Inr df'"
  using assms
  by (simp add: calculate_indicators_def bind_eq_Some_conv discard_exn_Some)

lemma calculate_indicators_other:
  assumes "other \<noteq> code"
  shows "calculate_indicators mt (data(code := x)) other = calculate_indicators mt data other"
  using assms by (simp add: calculate_indicators_def)


lemma sample_data_a: "sample_data code_a = Some broken_frame"
  by (simp add: sample_data_def code_a_def code_b_def codepoints_def)

lemma sample_data_b: "sample_data code_b = Some sample_frame"
  by (simp add: sample_data_def code_a_def code_b_def codepoints_def)

lemma sample_calculated: "calculate_indicators sample_library sample_data code_b \<noteq> None"
  by (simp add: sample_data_b calculate_indicators_def compute_indicators_def discard_exn_def
      getitem_def setitem_def nan_to_num_def sample_library_def sample_frame_def undefined_first_def)


section \<open>The augmented table\<close>

text \<open>Every value a successful computation went through, and the assignments it returns.\<close>

lemma compute_indicators_SomeD:
  assumes "compute_indicators mt df = Some assignments"
  shows "\<exists>close open_price high low volume dif dea macd k d j upper mid lower rsi_raw psy psyma
            wr wr1 bias1 bias2 bias3 cci ma5 ma10 ma20 ma60 atr emv maemv dpo madpo trix trma
            pdi mdi adx adxr vr ar br roc maroc mtm mtmma dif_dma difma_dma.
     getitem df ''close'' = Inr close \<and> getitem df ''open'' = Inr open_price
     \<and> getitem df ''high'' = Inr high \<and> getitem df ''low'' = Inr low
     \<and> getitem df ''volume'' = Inr volume
     \<and> mt_MACD mt close = Some (dif, dea, macd)
     \<and> mt_KDJ mt close high low = Some (k, d, j)
     \<and> mt_BOLL mt close = Some (upper, mid, lower)
     \<and> mt_RSI mt close 14 = Some rsi_raw
     \<and> mt_PSY mt close = Some (psy, psyma)
     \<and> mt_WR mt close high low = Some (wr, wr1)
     \<and> mt_BIAS mt close = Some (bias1, bias2, bias3)
     \<and> mt_CCI mt close high low = Some cci
     \<and> mt_MA mt close 5 = Some ma5 \<and> mt_MA mt close 10 = Some ma10
     \<and> mt_MA mt close 20 = Some ma20 \<and> mt_MA mt close 60 = Some ma60
     \<and> mt_ATR mt close high low = Some atr
     \<and> mt_EMV mt high low volume = Some (emv, maemv)
     \<and> mt_DPO mt close = Some (dpo, madpo)
     \<and> mt_TRIX mt close = Some (trix, trma)
     \<and> mt_DMI mt close high low = Some (pdi, mdi, adx, adxr)
     \<and> mt_VR mt close volume = Some vr
     \<and> mt_BRAR mt open_price close high low = Some (ar, br)
     \<and> mt_ROC mt close = Some (roc, maroc)
     \<and> mt_MTM mt close = Some (mtm, mtmma)
     \<and> mt_DMA mt close = Some (dif_dma, difma_dma)
     \<and> assignments =
          [(''MACD'', macd), (''DIF'', dif), (''DEA'', dea),
           (''K'', k), (''D'', d), (''J'', j),
           (''BOLL_UP'', upper), (''BOLL_MID'', mid), (''BOLL_LOW'', lower),
           (''RSI'', nan_to_num 50 rsi_raw), (''PSY'', psy), (''PSYMA'', psyma),
           (''WR'', wr), (''WR1'', wr1),
           (''BIAS1'', bias1), (''BIAS2'', bias2), (''BIAS3'', bias3),
           (''CCI'', cci),
           (''MA5'', ma5), (''MA10'', ma10), (''MA20'', ma20), (''MA60'', ma60),
           (''ATR'', atr), (''EMV'', emv), (''MAEMV'', maemv),
           (''DPO'', dpo), (''MADPO'', madpo), (''TRIX'', trix), (''TRMA'', trma),
           (''PDI'', pdi), (''MDI'', mdi), (''ADX'', adx), (''ADXR'', adxr),
           (''VR'', vr), (''AR'', ar), (''BR'', br),
           (''ROC'', roc), (''MAROC'', maroc), (''MTM'', mtm), (''MTMMA'', mtmma),
           (''DIF_DMA'', dif_dma), (''DIFMA_DMA'', difma_dma)]"
  using assms unfolding compute_indicators_def
  by (auto simp: bind_eq_Some_conv Let_def discard_exn_Some split: prod.splits)


lemma nan_to_num_nan:
  assumes "i < length xs" and "xs ! i = NaN"
  shows "nan_to_num v xs ! i = Finite v"
  using assms by (simp add: nan_to_num_def)

text \<open>
  Claim C8 as stated fails for the RSI column: where the library's RSI is undefined, the
  table does not hold the not-a-number marker but the value 50 (line 189). With the
  sample library the RSI array of the sample series is undefined at the first position,
  and the stored RSI column holds 50 there.
\<close>

theorem rsi_marker_replaced_counterexample:
  "sample_data code_b = Some sample_frame
   \<and> getitem sample_frame ''close'' = Inr [Finite 11, Finite 30]
   \<and> mt_RSI sample_library [Finite 11, Finite 30] 14 = Some [NaN, Finite 30]
   \<and> column_of_result (calculate_indicators sample_library sample_data code_b) ''RSI''
       = Some [Finite 50, Finite 30]"
  by (simp add: sample_data_b column_of_result_def calculate_indicators_def
      compute_indicators_def discard_exn_def getitem_def setitem_def nan_to_num_def
      sample_library_def sample_frame_def undefined_first_def)

text \<open>
  Claim C8, as amended. For a stored series with at least one row that the assembler
  accepts, the augmented table has the index, hence the row count, of the input; every
  added indicator column is present with exactly that many positions (an array of
  another length makes the assignment raise, so a column is never shortened); the
  columns of the input are unchanged; and every added column is, position by position,
  the array the library returned for it on the input arrays, so a not-a-number marker
  of the library keeps its position. The RSI column is the exception: it is the
  library's array with every not-a-number replaced by 50.
\<close>

theorem augmented_table_rows:
  assumes "data code = Some df" and "index df \<noteq> []"
    and "calculate_indicators mt data code = Some df'"
  shows "index df' = index df \<and> len df' = len df
       \<and> list_all (\<lambda>c. map_option length (map_of (columns df') c) = Some (len df)) indicator_labels
       \<and> (\<forall>c. c \<notin> set indicator_labels \<longrightarrow> map_of (columns df') c = map_of (columns df) c)
       \<and> (\<exists>close open_price high low volume.
            getitem df ''close'' = Inr close \<and> getitem df ''open'' = Inr open_price
            \<and> getitem df ''high'' = Inr high \<and> getitem df ''low'' = Inr low
            \<and> getitem df ''volume'' = Inr volume
            \<and> (\<exists>dif dea macd. mt_MACD mt close = Some (dif, dea, macd)
                 \<and> stored df' ''MACD'' macd \<and> stored df' ''DIF'' dif \<and> stored df' ''DEA'' dea)
            \<and> (\<exists>k d j. mt_KDJ mt close high low = Some (k, d, j)
                 \<and> stored df' ''K'' k \<and> stored df' ''D'' d \<and> stored df' ''J'' j)
            \<and> (\<exists>upper mid lower. mt_BOLL mt close = Some (upper, mid, lower)
                 \<and> stored df' ''BOLL_UP'' upper \<and> stored df' ''BOLL_MID'' mid
                 \<and> stored df' ''BOLL_LOW'' lower)
            \<and> (\<exists>rsi_raw. mt_RSI mt close 14 = Some rsi_raw
                 \<and> stored df' ''RSI'' (nan_to_num 50 rsi_raw)
                 \<and> (\<forall>i<length rsi_raw. rsi_raw ! i = NaN
                       \<longrightarrow> nan_to_num 50 rsi_raw ! i = Finite 50))
            \<and> (\<exists>psy psyma. mt_PSY mt close = Some (psy, psyma)
                 \<and> stored df' ''PSY'' psy \<and> stored df' ''PSYMA'' psyma)
            \<and> (\<exists>wr wr1. mt_WR mt close high low = Some (wr, wr1)
                 \<and> stored df' ''WR'' wr \<and> stored df' ''WR1'' wr1)
            \<and> (\<exists>bias1 bias2 bias3. mt_BIAS mt close = Some (bias1, bias2, bias3)
                 \<and> stored df' ''BIAS1'' bias1 \<and> stored df' ''BIAS2'' bias2
                 \<and> stored df' ''BIAS3'' bias3)
            \<and> (\<exists>cci. mt_CCI mt close high low = Some cci \<and> stored df' ''CCI'' cci)
            \<and> (\<exists>ma5. mt_MA mt close 5 = Some ma5 \<and> stored df' ''MA5'' ma5)
            \<and> (\<exists>ma10. mt_MA mt close 10 = Some ma10 \<and> stored df' ''MA10'' ma10)
            \<and> (\<exists>ma20. mt_MA mt close 20 = Some ma20 \<and> stored df' ''MA20'' ma20)
            \<and> (\<exists>ma60. mt_MA mt close 60 = Some ma60 \<and> stored df' ''MA60'' ma60)
            \<and> (\<exists>atr. mt_ATR mt close high low = Some atr \<and> stored df' ''ATR'' atr)
            \<and> (\<exists>emv maemv. mt_EMV mt high low volume = Some (emv, maemv)
                 \<and> stored df' ''EMV'' emv \<and> stored df' ''MAEMV'' maemv)
            \<and> (\<exists>dpo madpo. mt_DPO mt close = Some (dpo, madpo)
                 \<and> stored df' ''DPO'' dpo \<and> stored df' ''MADPO'' madpo)
            \<and> (\<exists>trix trma. mt_TRIX mt close = Some (trix, trma)
                 \<and> stored df' ''TRIX'' trix \<and> stored df' ''TRMA'' trma)
            \<and> (\<exists>pdi mdi adx adxr. mt_DMI mt close high low = Some (pdi, mdi, adx, adxr)
                 \<and> stored df' ''PDI'' pdi \<and> stored df' ''MDI'' mdi
                 \<and> stored df' ''ADX'' adx \<and> stored df' ''ADXR'' adxr)
            \<and> (\<exists>vr. mt_VR mt close volume = Some vr \<and> stored df' ''VR'' vr)
            \<and> (\<exists>ar br. mt_BRAR mt open_price close high low = Some (ar, br)
                 \<and> stored df' ''AR'' ar \<and> stored df' ''BR'' br)
            \<and> (\<exists>roc maroc. mt_ROC mt close = Some (roc, maroc)
                 \<and> stored df' ''ROC'' roc \<and> stored df' ''MAROC'' maroc)
            \<and> (\<exists>mtm mtmma. mt_MTM mt close = Some (mtm, mtmma)
                 \<and> stored df' ''MTM'' mtm \<and> stored df' ''MTMMA'' mtmma)
            \<and> (\<exists>dif_dma difma_dma. mt_DMA mt close = Some (dif_dma, difma_dma)
                 \<and> stored df' ''DIF_DMA'' dif_dma \<and> stored df' ''DIFMA_DMA'' difma_dma))"
proof -
  from calculate_indicators_Some [OF assms(1,3)] obtain assignments
    where comp: "compute_indicators mt df = Some assignments"
      and store: "setitems df assignments = Inr df'" by blast
  from compute_indicators_labels [OF comp] have labels: "map fst assignments = indicator_labels" .
  with indicator_labels_distinct have "distinct (map fst assignments)" by simp
  from setitems_rows [OF store assms(2) this]
  have idx: "index df' = index df"
    and lens: "list_all (\<lambda>(c, v). length v = len df) assignments"
    and cols: "\<And>c. map_of (columns df') c
            = (case map_of assignments c of None \<Rightarrow> map_of (columns df) c | Some v \<Rightarrow> Some v)"
    by simp_all
  have assigned: "\<exists>v. map_of assignments c = Some v \<and> length v = len df"
    if "c \<in> set indicator_labels" for c
  proof -
    from that labels have "c \<in> fst ` set assignments" by (metis set_map)
    then obtain v where v: "map_of assignments c = Some v"
      by (meson domD domI map_of_eq_None_iff not_Some_eq)
    then have "(c, v) \<in> set assignments" by (rule map_of_SomeD)
    with lens v show ?thesis by (auto simp: list_all_iff)
  qed
  have a: "list_all (\<lambda>c. map_option length (map_of (columns df') c) = Some (len df)) indicator_labels"
    unfolding list_all_iff
  proof
    fix c
    assume "c \<in> set indicator_labels"
    from assigned [OF this] cols [of c]
    show "map_option length (map_of (columns df') c) = Some (len df)" by auto
  qed
  have c: "\<forall>c. c \<notin> set indicator_labels \<longrightarrow> map_of (columns df') c = map_of (columns df) c"
  proof (intro allI impI)
    fix c
    assume "c \<notin> set indicator_labels"
    with labels have "c \<notin> fst ` set assignments" by (metis set_map)
    then have "map_of assignments c = None" by (simp add: map_of_eq_None_iff)
    with cols [of c] show "map_of (columns df') c = map_of (columns df) c" by simp
  qed
  from idx have l: "len df' = len df" by (simp add: len_def)
  from compute_indicators_SomeD [OF comp]
  obtain close open_price high low volume dif dea macd k d j upper mid lower rsi_raw psy psyma
      wr wr1 bias1 bias2 bias3 cci ma5 ma10 ma20 ma60 atr emv maemv dpo madpo trix trma
      pdi mdi adx adxr vr ar br roc maroc mtm mtmma dif_dma difma_dma
    where inputs: "getitem df ''close'' = Inr close" "getitem df ''open'' = Inr open_price"
        "getitem df ''high'' = Inr high" "getitem df ''low'' = Inr low"
        "getitem df ''volume'' = Inr volume"
      and calls: "mt_MACD mt close = Some (dif, dea, macd)"
        "mt_KDJ mt close high low = Some (k, d, j)"
        "mt_BOLL mt close = Some (upper, mid, lower)"
        "mt_RSI mt close 14 = Some rsi_raw"
        "mt_PSY mt close = Some (psy, psyma)"
        "mt_WR mt close high low = Some (wr, wr1)"
        "mt_BIAS mt close = Some (bias1, bias2, bias3)"
        "mt_CCI mt close high low = Some cci"
        "mt_MA mt close 5 = Some ma5" "mt_MA mt close 10 = Some ma10"
        "mt_MA mt close 20 = Some ma20" "mt_MA mt close 60 = Some ma60"
        "mt_ATR mt close high low = Some atr"
        "mt_EMV mt high low volume = Some (emv, maemv)"
        "mt_DPO mt close = Some (dpo, madpo)"
        "mt_TRIX mt close = Some (trix, trma)"
        "mt_DMI mt close high low = Some (pdi, mdi, adx, adxr)"
        "mt_VR mt close volume = Some vr"
        "mt_BRAR mt open_price close high low = Some (ar, br)"
        "mt_ROC mt close = Some (roc, maroc)"
        "mt_MTM mt close = Some (mtm, mtmma)"
        "mt_DMA mt close = Some (dif_dma, difma_dma)"
      and asg: "assignments =
          [(''MACD'', macd), (''DIF'', dif), (''DEA'', dea),
           (''K'', k), (''D'', d), (''J'', j),
           (''BOLL_UP'', upper), (''BOLL_MID'', mid), (''BOLL_LOW'', lower),
           (''RSI'', nan_to_num 50 rsi_raw), (''PSY'', psy), (''PSYMA'', psyma),
           (''WR'', wr), (''WR1'', wr1),
           (''BIAS1'', bias1), (''BIAS2'', bias2), (''BIAS3'', bias3),
           (''CCI'', cci),
           (''MA5'', ma5), (''MA10'', ma10), (''MA20'', ma20), (''MA60'', ma60),
           (''ATR'', atr), (''EMV'', emv), (''MAEMV'', maemv),
           (''DPO'', dpo), (''MADPO'', madpo), (''TRIX'', trix), (''TRMA'', trma),
           (''PDI'', pdi), (''MDI'', mdi), (''ADX'', adx), (''ADXR'', adxr),
           (''VR'', vr), (''AR'', ar), (''BR'', br),
           (''ROC'', roc), (''MAROC'', maroc), (''MTM'', mtm), (''MTMMA'', mtmma),
           (''DIF_DMA'', dif_dma), (''DIFMA_DMA'', difma_dma)]"
    by (elim exE conjE) (rule that; assumption)
  have st: "stored df' ''MACD'' macd" "stored df' ''DIF'' dif" "stored df' ''DEA'' dea"
    "stored df' ''K'' k" "stored df' ''D'' d" "stored df' ''J'' j"
    "stored df' ''BOLL_UP'' upper" "stored df' ''BOLL_MID'' mid" "stored df' ''BOLL_LOW'' lower"
    "stored df' ''RSI'' (nan_to_num 50 rsi_raw)" "stored df' ''PSY'' psy"
    "stored df' ''PSYMA'' psyma" "stored df' ''WR'' wr" "stored df' ''WR1'' wr1"
    "stored df' ''BIAS1'' bias1" "stored df' ''BIAS2'' bias2" "stored df' ''BIAS3'' bias3"
    "stored df' ''CCI'' cci" "stored df' ''MA5'' ma5" "stored df' ''MA10'' ma10"
    "stored df' ''MA20'' ma20" "stored df' ''MA60'' ma60" "stored df' ''ATR'' atr"
    "stored df' ''EMV'' emv" "stored df' ''MAEMV'' maemv" "stored df' ''DPO'' dpo"
    "stored df' ''MADPO'' madpo" "stored df' ''TRIX'' trix" "stored df' ''TRMA'' trma"
    "stored df' ''PDI'' pdi" "stored df' ''MDI'' mdi" "stored df' ''ADX'' adx"
    "stored df' ''ADXR'' adxr" "stored df' ''VR'' vr" "stored df' ''AR'' ar"
    "stored df' ''BR'' br" "stored df' ''ROC'' roc" "stored df' ''MAROC'' maroc"
    "stored df' ''MTM'' mtm" "stored df' ''MTMMA'' mtmma" "stored df' ''DIF_DMA'' dif_dma"
    "stored df' ''DIFMA_DMA'' difma_dma"
    unfolding stored_def cols asg by simp_all
  have rsi50: "\<forall>i<length rsi_raw. rsi_raw ! i = NaN \<longrightarrow> nan_to_num 50 rsi_raw ! i = Finite 50"
    by (simp add: nan_to_num_nan)
  have contents: "\<exists>close open_price high low volume.
            getitem df ''close'' = Inr close \<and> getitem df ''open'' = Inr open_price
            \<and> getitem df ''high'' = Inr high \<and> getitem df ''low'' = Inr low
            \<and> getitem df ''volume'' = Inr volume
            \<and> (\<exists>dif dea macd. mt_MACD mt close = Some (dif, dea, macd)
                 \<and> stored df' ''MACD'' macd \<and> stored df' ''DIF'' dif \<and> stored df' ''DEA'' dea)
            \<and> (\<exists>k d j. mt_KDJ mt close high low = Some (k, d, j)
                 \<and> stored df' ''K'' k \<and> stored df' ''D'' d \<and> stored df' ''J'' j)
            \<and> (\<exists>upper mid lower. mt_BOLL mt close = Some (upper, mid, lower)
                 \<and> stored df' ''BOLL_UP'' upper \<and> stored df' ''BOLL_MID'' mid
                 \<and> stored df' ''BOLL_LOW'' lower)
            \<and> (\<exists>rsi_raw. mt_RSI mt close 14 = Some rsi_raw
                 \<and> stored df' ''RSI'' (nan_to_num 50 rsi_raw)
                 \<and> (\<forall>i<length rsi_raw. rsi_raw ! i = NaN
                       \<longrightarrow> nan_to_num 50 rsi_raw ! i = Finite 50))
            \<and> (\<exists>psy psyma. mt_PSY mt close = Some (psy, psyma)
                 \<and> stored df' ''PSY'' psy \<and> stored df' ''PSYMA'' psyma)
            \<and> (\<exists>wr wr1. mt_WR mt close high low = Some (wr, wr1)
                 \<and> stored df' ''WR'' wr \<and> stored df' ''WR1'' wr1)
            \<and> (\<exists>bias1 bias2 bias3. mt_BIAS mt close = Some (bias1, bias2, bias3)
                 \<and> stored df' ''BIAS1'' bias1 \<and> stored df' ''BIAS2'' bias2
                 \<and> stored df' ''BIAS3'' bias3)
            \<and> (\<exists>cci. mt_CCI mt close high low = Some cci \<and> stored df' ''CCI'' cci)
            \<and> (\<exists>ma5. mt_MA mt close 5 = Some ma5 \<and> stored df' ''MA5'' ma5)
            \<and> (\<exists>ma10. mt_MA mt close 10 = Some ma10 \<and> stored df' ''MA10'' ma10)
            \<and> (\<exists>ma20. mt_MA mt close 20 = Some ma20 \<and> stored df' ''MA20'' ma20)
            \<and> (\<exists>ma60. mt_MA mt close 60 = Some ma60 \<and> stored df' ''MA60'' ma60)
            \<and> (\<exists>atr. mt_ATR mt close high low = Some atr \<and> stored df' ''ATR'' atr)
            \<and> (\<exists>emv maemv. mt_EMV mt high low volume = Some (emv, maemv)
                 \<and> stored df' ''EMV'' emv \<and> stored df' ''MAEMV'' maemv)
            \<and> (\<exists>dpo madpo. mt_DPO mt close = Some (dpo, madpo)
                 \<and> stored df' ''DPO'' dpo \<and> stored df' ''MADPO'' madpo)
            \<and> (\<exists>trix trma. mt_TRIX mt close = Some (trix, trma)
                 \<and> stored df' ''TRIX'' trix \<and> stored df' ''TRMA'' trma)
            \<and> (\<exists>pdi mdi adx adxr. mt_DMI mt close high low = Some (pdi, mdi, adx, adxr)
                 \<and> stored df' ''PDI'' pdi \<and> stored df' ''MDI'' mdi
                 \<and> stored df' ''ADX'' adx \<and> stored df' ''ADXR'' adxr)
            \<and> (\<exists>vr. mt_VR mt close volume = Some vr \<and> stored df' ''VR'' vr)
            \<and> (\<exists>ar br. mt_BRAR mt open_price close high low = Some (ar, br)
                 \<and> stored df' ''AR'' ar \<and> stored df' ''BR'' br)
            \<and> (\<exists>roc maroc. mt_ROC mt close = Some (roc, maroc)
                 \<and> stored df' ''ROC'' roc \<and> stored df' ''MAROC'' maroc)
            \<and> (\<exists>mtm mtmma. mt_MTM mt close = Some (mtm, mtmma)
                 \<and> stored df' ''MTM'' mtm \<and> stored df' ''MTMMA'' mtmma)
            \<and> (\<exists>dif_dma difma_dma. mt_DMA mt close = Some (dif_dma, difma_dma)
                 \<and> stored df' ''DIF_DMA'' dif_dma \<and> stored df' ''DIFMA_DMA'' difma_dma)"
    by (simp add: inputs calls st rsi50)
  from idx l a c contents show ?thesis by (intro conjI)
qed

theorem augmented_table_rows_witness:
  "sample_data code_b = Some sample_frame \<and> index sample_frame \<noteq> []
   \<and> (\<exists>df'. calculate_indicators sample_library sample_data code_b = Some df'
         \<and> index df' = [0, 1] \<and> len df' = 2
         \<and> list_all (\<lambda>c. map_option length (map_of (columns df') c) = Some 2) indicator_labels
         \<and> stored df' ''MACD'' [Finite 11, Finite 30]
         \<and> stored df' ''MA5'' [NaN, Finite 30]
         \<and> stored df' ''RSI'' [Finite 50, Finite 30])"
proof -
  have ne: "index sample_frame \<noteq> []" by (simp add: sample_frame_def)
  have i: "index sample_frame = [0, 1]" and l: "len sample_frame = 2"
    by (simp_all add: sample_frame_def len_def)
  from sample_calculated obtain df'
    where c: "calculate_indicators sample_library sample_data code_b = Some df'" by blast
  note inst = augmented_table_rows [OF sample_data_b ne c]
  from inst i l
  have rows: "index df' = [0, 1] \<and> len df' = 2
      \<and> list_all (\<lambda>c. map_option length (map_of (columns df') c) = Some 2) indicator_labels"
    by simp
  from inst
  have cells: "stored df' ''MACD'' [Finite 11, Finite 30] \<and> stored df' ''MA5'' [NaN, Finite 30]
      \<and> stored df' ''RSI'' [Finite 50, Finite 30]"
    by (simp add: getitem_def sample_frame_def sample_library_def undefined_first_def
        nan_to_num_def)
  from sample_data_b ne c rows cells show ?thesis by blast
qed

text \<open>
  Claim C7. In the augmented table of a stored series with at least one row, the RSI
  column is the array returned by the library's RSI after \<open>nan_to_num\<close>: it has no
  not-a-number value at any position. When the library's values are not-a-number or in
  [0,100], every position holds either the computed value, in [0,100], or the default
  50 in place of a not-a-number, and the whole column lies in [0,100].
\<close>

theorem rsi_column_no_nan:
  assumes "data code = Some df" and "index df \<noteq> []"
    and "calculate_indicators mt data code = Some df'"
  shows "\<exists>close raw col. getitem df ''close'' = Inr close \<and> mt_RSI mt close 14 = Some raw
       \<and> map_of (columns df') ''RSI'' = Some col \<and> length col = length raw
       \<and> list_all (\<lambda>v. v \<noteq> NaN) col
       \<and> (rsi_in_range raw \<longrightarrow>
            list_all in_0_100 col
            \<and> (\<forall>i<length raw. (raw ! i = NaN \<and> col ! i = Finite 50)
                                \<or> (col ! i = raw ! i \<and> in_0_100 (raw ! i))))"
proof -
  from calculate_indicators_Some [OF assms(1,3)] obtain assignments
    where comp: "compute_indicators mt df = Some assignments"
      and store: "setitems df assignments = Inr df'" by blast
  from compute_indicators_labels [OF comp] indicator_labels_distinct
  have "distinct (map fst assignments)" by simp
  from setitems_rows [OF store assms(2) this]
  have cols: "map_of (columns df') ''RSI''
      = (case map_of assignments ''RSI'' of None \<Rightarrow> map_of (columns df) ''RSI'' | Some v \<Rightarrow> Some v)"
    by simp
  from compute_indicators_rsi [OF comp] obtain close raw
    where close: "getitem df ''close'' = Inr close" and raw: "mt_RSI mt close 14 = Some raw"
      and rsi: "map_of assignments ''RSI'' = Some (nan_to_num 50 raw)" by blast
  from cols rsi have col: "map_of (columns df') ''RSI'' = Some (nan_to_num 50 raw)" by simp
  have pos: "(raw ! i = NaN \<and> nan_to_num 50 raw ! i = Finite 50)
      \<or> (nan_to_num 50 raw ! i = raw ! i \<and> in_0_100 (raw ! i))"
    if "rsi_in_range raw" and "i < length raw" for i
  proof -
    from that have "raw ! i = NaN \<or> in_0_100 (raw ! i)"
      by (simp add: rsi_in_range_def list_all_length)
    with that(2) show ?thesis
      by (cases "raw ! i") (auto simp: nan_to_num_nth in_0_100_def)
  qed
  have range: "list_all in_0_100 (nan_to_num 50 raw)" if "rsi_in_range raw"
    unfolding list_all_length
  proof (intro allI impI)
    fix i
    assume "i < length (nan_to_num 50 raw)"
    then have "i < length raw" by (simp add: nan_to_num_length)
    from pos [OF that this] show "in_0_100 (nan_to_num 50 raw ! i)"
      by (auto simp: in_0_100_def)
  qed
  from close raw col pos range nan_to_num_no_nan [of 50 raw] nan_to_num_length [of 50 raw]
  show ?thesis by blast
qed

theorem rsi_column_no_nan_witness:
  "sample_data code_b = Some sample_frame \<and> index sample_frame \<noteq> []
   \<and> (\<exists>df' col. calculate_indicators sample_library sample_data code_b = Some df'
         \<and> map_of (columns df') ''RSI'' = Some col
         \<and> list_all (\<lambda>v. v \<noteq> NaN) col \<and> list_all in_0_100 col)"
proof -
  have ne: "index sample_frame \<noteq> []" by (simp add: sample_frame_def)
  from sample_calculated obtain df'
    where c: "calculate_indicators sample_library sample_data code_b = Some df'" by blast
  from rsi_column_no_nan [OF sample_data_b ne c] obtain close raw col
    where close: "getitem sample_frame ''close'' = Inr close"
      and raw: "mt_RSI sample_library close 14 = Some raw"
      and col: "map_of (columns df') ''RSI'' = Some col" "list_all (\<lambda>v. v \<noteq> NaN) col"
      and range: "rsi_in_range raw \<longrightarrow> list_all in_0_100 col"
    by blast
  from close have "close = [Finite 11, Finite 30]"
    by (simp add: getitem_def sample_frame_def)
  with raw have "raw = [NaN, Finite 30]"
    by (simp add: sample_library_def undefined_first_def)
  then have "rsi_in_range raw" by (simp add: rsi_in_range_def in_0_100_def)
  with range col sample_data_b ne c show ?thesis by blast
qed


section \<open>Failure of the assembler\<close>

lemma generate_analysis_data_other:
  assumes "other \<noteq> code"
  shows "generate_analysis_data mt full_report stock_names (data(code := x)) other
       = generate_analysis_data mt full_report stock_names data other"
proof -
  from assms have d: "(data(code := x)) other = data other" by simp
  show ?thesis
    unfolding generate_analysis_data_def d calculate_indicators_other [OF assms] ..
qed

text \<open>
  Claim C6. For an instrument with stored data: if an input column cannot be read or any
  single call of the library raises, the assembler returns no table; a table it does
  return has every indicator column, so it is never partially populated. When the
  assembler returns no table for a non-empty series, \<open>generate_analysis_data\<close>
  returns the placeholder snapshot with the status "computation of the technical
  indicators failed", no indicators and that text as only advice. The loop over the
  instruments yields one snapshot for every code with data, this one included, and the
  snapshot of any other instrument does not depend on the data of this one.
\<close>

theorem assembler_all_or_nothing:
  assumes "data code = Some df"
  shows "(\<not> all_indicators_computed mt df \<longrightarrow> calculate_indicators mt data code = None)
       \<and> (\<forall>df'. calculate_indicators mt data code = Some df' \<longrightarrow>
            list_all (\<lambda>c. map_of (columns df') c \<noteq> None) indicator_labels)
       \<and> (\<not> df_empty df \<and> calculate_indicators mt data code = None \<longrightarrow>
            generate_analysis_data mt full_report stock_names data code
              = \<lparr>basic_data = [(key_code, code), (key_name, get_stock_name stock_names code),
                               (key_status, msg_calc_failed)],
                 indicators = [],
                 advice = [msg_calc_failed]\<rparr>)
       \<and> length (report_snapshots mt full_report stock_names data stock_codes)
            = length (filter (\<lambda>c. data c \<noteq> None) stock_codes)
       \<and> (code \<in> set stock_codes \<longrightarrow>
            generate_analysis_data mt full_report stock_names data code
              \<in> set (report_snapshots mt full_report stock_names data stock_codes))
       \<and> (\<forall>other x. other \<noteq> code \<longrightarrow>
            generate_analysis_data mt full_report stock_names (data(code := x)) other
              = generate_analysis_data mt full_report stock_names data other)"
proof -
  have a: "\<not> all_indicators_computed mt df \<longrightarrow> calculate_indicators mt data code = None"
  proof
    assume "\<not> all_indicators_computed mt df"
    with compute_indicators_calls [of mt df] have "compute_indicators mt df = None"
      by (cases "compute_indicators mt df") auto
    with assms show "calculate_indicators mt data code = None"
      by (simp add: calculate_indicators_def)
  qed
  have b: "\<forall>df'. calculate_indicators mt data code = Some df' \<longrightarrow>
      list_all (\<lambda>c. map_of (columns df') c \<noteq> None) indicator_labels"
  proof (intro allI impI)
    fix df'
    assume "calculate_indicators mt data code = Some df'"
    from calculate_indicators_Some [OF assms this] obtain assignments
      where comp: "compute_indicators mt df = Some assignments"
        and store: "setitems df assignments = Inr df'" by blast
    from compute_indicators_labels [OF comp]
    have "set indicator_labels = fst ` set assignments" by (metis set_map)
    with setitems_keys [OF store] have "set indicator_labels \<subseteq> fst ` set (columns df')" by simp
    then show "list_all (\<lambda>c. map_of (columns df') c \<noteq> None) indicator_labels"
      by (auto simp: list_all_iff map_of_eq_None_iff)
  qed
  have c: "\<not> df_empty df \<and> calculate_indicators mt data code = None \<longrightarrow>
      generate_analysis_data mt full_report stock_names data code
        = \<lparr>basic_data = [(key_code, code), (key_name, get_stock_name stock_names code),
                         (key_status, msg_calc_failed)],
           indicators = [],
           advice = [msg_calc_failed]\<rparr>"
    using assms by (simp add: generate_analysis_data_def)
  have d: "length (report_snapshots mt full_report stock_names data stock_codes)
      = length (filter (\<lambda>c. data c \<noteq> None) stock_codes)"
    by (simp add: report_snapshots_def)
  have e: "code \<in> set stock_codes \<longrightarrow>
      generate_analysis_data mt full_report stock_names data code
        \<in> set (report_snapshots mt full_report stock_names data stock_codes)"
    using assms by (simp add: report_snapshots_def)
  have f: "\<forall>other x. other \<noteq> code \<longrightarrow>
      generate_analysis_data mt full_report stock_names (data(code := x)) other
        = generate_analysis_data mt full_report stock_names data other"
    by (simp add: generate_analysis_data_other)
  from a b c d e f show ?thesis by (intro conjI)
qed

theorem assembler_all_or_nothing_witness:
  "sample_data code_a = Some broken_frame
   \<and> \<not> all_indicators_computed sample_library broken_frame
   \<and> \<not> df_empty broken_frame
   \<and> calculate_indicators sample_library sample_data code_a = None
   \<and> generate_analysis_data sample_library sample_report sample_names sample_data code_a
       = \<lparr>basic_data = [(key_code, code_a), (key_name, [19978, 35777, 25351, 25968]),
                        (key_status, msg_calc_failed)],
          indicators = [],
          advice = [msg_calc_failed]\<rparr>
   \<and> length (report_snapshots sample_library sample_report sample_names sample_data
               [code_a, code_b]) = 2
   \<and> code_b \<noteq> code_a
   \<and> generate_analysis_data sample_library sample_report sample_names
         (sample_data(code_a := None)) code_b
       = generate_analysis_data sample_library sample_report sample_names sample_data code_b
   \<and> (\<exists>df'. calculate_indicators sample_library sample_data code_b = Some df'
         \<and> list_all (\<lambda>c. map_of (columns df') c \<noteq> None) indicator_labels)"
proof -
  note at_a = assembler_all_or_nothing [where data = sample_data and code = code_a
      and df = broken_frame and mt = sample_library and full_report = sample_report
      and stock_names = sample_names and stock_codes = "[code_a, code_b]", OF sample_data_a]
  note at_b = assembler_all_or_nothing [where data = sample_data and code = code_b
      and df = sample_frame and mt = sample_library and full_report = sample_report
      and stock_names = sample_names and stock_codes = "[code_a, code_b]", OF sample_data_b]
  have fails: "\<not> all_indicators_computed sample_library broken_frame"
    by (simp add: all_indicators_computed_def indicator_calls_def getitem_def broken_frame_def
        sample_library_def)
  have ne: "\<not> df_empty broken_frame" by (simp add: df_empty_def broken_frame_def)
  have diff: "code_b \<noteq> code_a" by (simp add: code_a_def code_b_def codepoints_def)
  have name: "get_stock_name sample_names code_a = [19978, 35777, 25351, 25968]"
    by (simp add: get_stock_name_def sample_names_def)
  have both: "filter (\<lambda>c. sample_data c \<noteq> None) [code_a, code_b] = [code_a, code_b]"
    by (simp add: sample_data_a sample_data_b)
  from at_a fails have none: "calculate_indicators sample_library sample_data code_a = None"
    by blast
  from at_a ne none name
  have snap: "generate_analysis_data sample_library sample_report sample_names sample_data code_a
       = \<lparr>basic_data = [(key_code, code_a), (key_name, [19978, 35777, 25351, 25968]),
                        (key_status, msg_calc_failed)],
          indicators = [],
          advice = [msg_calc_failed]\<rparr>" by simp
  from at_a both
  have two: "length (report_snapshots sample_library sample_report sample_names sample_data
               [code_a, code_b]) = 2" by simp
  from at_a diff
  have other: "generate_analysis_data sample_library sample_report sample_names
         (sample_data(code_a := None)) code_b
       = generate_analysis_data sample_library sample_report sample_names sample_data code_b"
    by blast
  from sample_calculated obtain df'
    where c: "calculate_indicators sample_library sample_data code_b = Some df'" by blast
  with at_b have "list_all (\<lambda>c. map_of (columns df') c \<noteq> None) indicator_labels" by blast
  with c have full: "\<exists>df'. calculate_indicators sample_library sample_data code_b = Some df'
         \<and> list_all (\<lambda>c. map_of (columns df') c \<noteq> None) indicator_labels" by blast
  from sample_data_a fails ne none snap two diff other full show ?thesis by (intro conjI)
qed

end
